theory Spec2Isabelle
  imports Complex_Main "HOL-Library.AList"
begin

section \<open>JavaScript numbers and values\<close>

text \<open>
  A JavaScript number is a double. The model keeps the three special values apart and
  idealises every finite double as a real: rounding is not modelled, the special values
  and the comparisons with them are.
\<close>

datatype jsnum = NaN | NegInf | Fin real | PosInf

fun num_neg :: "jsnum \<Rightarrow> jsnum" where
  "num_neg NaN = NaN"
| "num_neg NegInf = PosInf"
| "num_neg PosInf = NegInf"
| "num_neg (Fin a) = Fin (- a)"

fun num_add :: "jsnum \<Rightarrow> jsnum \<Rightarrow> jsnum" where
  "num_add (Fin a) (Fin b) = Fin (a + b)"
| "num_add NaN _ = NaN"
| "num_add _ NaN = NaN"
| "num_add PosInf NegInf = NaN"
| "num_add NegInf PosInf = NaN"
| "num_add PosInf _ = PosInf"
| "num_add _ PosInf = PosInf"
| "num_add NegInf _ = NegInf"
| "num_add _ NegInf = NegInf"

definition num_sub :: "jsnum \<Rightarrow> jsnum \<Rightarrow> jsnum" where
  "num_sub a b = num_add a (num_neg b)"

fun num_mult :: "jsnum \<Rightarrow> jsnum \<Rightarrow> jsnum" where
  "num_mult (Fin a) (Fin b) = Fin (a * b)"
| "num_mult NaN _ = NaN"
| "num_mult _ NaN = NaN"
| "num_mult PosInf (Fin b) = (if b = 0 then NaN else if 0 < b then PosInf else NegInf)"
| "num_mult NegInf (Fin b) = (if b = 0 then NaN else if 0 < b then NegInf else PosInf)"
| "num_mult (Fin a) PosInf = (if a = 0 then NaN else if 0 < a then PosInf else NegInf)"
| "num_mult (Fin a) NegInf = (if a = 0 then NaN else if 0 < a then NegInf else PosInf)"
| "num_mult PosInf PosInf = PosInf"
| "num_mult NegInf NegInf = PosInf"
| "num_mult PosInf NegInf = NegInf"
| "num_mult NegInf PosInf = NegInf"

text \<open>The relational operators: every comparison with \<open>NaN\<close> is false.\<close>

fun num_lt :: "jsnum \<Rightarrow> jsnum \<Rightarrow> bool" where
  "num_lt (Fin a) (Fin b) = (a < b)"
| "num_lt NaN _ = False"
| "num_lt _ NaN = False"
| "num_lt NegInf NegInf = False"
| "num_lt NegInf _ = True"
| "num_lt _ NegInf = False"
| "num_lt PosInf _ = False"
| "num_lt _ PosInf = True"

definition num_ge :: "jsnum \<Rightarrow> jsnum \<Rightarrow> bool" where
  "num_ge a b = (a \<noteq> NaN \<and> b \<noteq> NaN \<and> \<not> num_lt a b)"

text \<open>\<open>Math.min\<close>, \<open>Math.max\<close> of two arguments and \<open>isFinite\<close>.\<close>

definition math_min :: "jsnum \<Rightarrow> jsnum \<Rightarrow> jsnum" where
  "math_min a b = (if a = NaN \<or> b = NaN then NaN else if num_lt b a then b else a)"

definition math_max :: "jsnum \<Rightarrow> jsnum \<Rightarrow> jsnum" where
  "math_max a b = (if a = NaN \<or> b = NaN then NaN else if num_lt a b then b else a)"

fun isFinite :: "jsnum \<Rightarrow> bool" where
  "isFinite (Fin a) = True"
| "isFinite _ = False"

text \<open>The values a property of the parameter object can hold.\<close>

datatype jsval = JUndefined | JNull | JBool bool | JNum jsnum | JStr string

section \<open>The held-value generator (random-lfo-processor.js)\<close>

text \<open>
  The fields of \<open>RandomLfoProcessor\<close>. \<open>drawn\<close> is bookkeeping of the model: the
  number of calls of \<open>Math.random\<close> made so far. The generator itself is a parameter
  \<open>rnd\<close> of the functions below, \<open>rnd i\<close> being what the \<open>i\<close>-th call returns.
  \<open>sampleRate\<close>, a global of the worklet scope, is the parameter \<open>sr\<close>.
\<close>

record lfo =
  phase :: jsnum
  currentValue :: real
  updateInterval :: jsnum
  lastFrequency :: real
  drawn :: nat

datatype lfo_error = TypeError

definition recalculateInterval :: "real \<Rightarrow> real \<Rightarrow> lfo \<Rightarrow> lfo" where
  "recalculateInterval sr frequency st =
     (st\<lparr>updateInterval := (if frequency > 0 then Fin (sr / frequency) else PosInf)\<rparr>)
       \<lparr>lastFrequency := frequency\<rparr>"

definition lfo_constructor :: "real \<Rightarrow> lfo" where
  "lfo_constructor sr =
     recalculateInterval sr 5
       \<lparr>phase = Fin 0, currentValue = 0, updateInterval = Fin 1, lastFrequency = 5, drawn = 0\<rparr>"

text \<open>One turn of the sample loop, up to the write of the held value.\<close>

definition frame :: "(nat \<Rightarrow> real) \<Rightarrow> jsnum \<Rightarrow> lfo \<Rightarrow> lfo" where
  "frame rnd samplesPerCycle st =
     (let st1 = st\<lparr>phase := num_add (phase st) (Fin 1)\<rparr> in
      if num_ge (phase st1) samplesPerCycle
      then st1\<lparr>phase := num_sub (phase st1) samplesPerCycle,
               currentValue := rnd (drawn st1) * 2 - 1,
               drawn := Suc (drawn st1)\<rparr>
      else st1)"

text \<open>
  The sample loop \<open>for (i = 0; i < output[0].length; ++i)\<close>: \<open>k\<close> counts the turns
  left, \<open>i\<close> is the index written. A channel is a typed array, where a write beyond
  the end is ignored, as \<open>list_update\<close> does.
\<close>

fun sample_loop ::
  "(nat \<Rightarrow> real) \<Rightarrow> jsnum \<Rightarrow> nat \<Rightarrow> nat \<Rightarrow> lfo \<Rightarrow> real list list \<Rightarrow> lfo \<times> real list list" where
  "sample_loop rnd samplesPerCycle 0 i st output = (st, output)"
| "sample_loop rnd samplesPerCycle (Suc k) i st output =
     (let st' = frame rnd samplesPerCycle st
      in sample_loop rnd samplesPerCycle k (Suc i) st'
           (map (\<lambda>channel. channel[i := currentValue st']) output))"

text \<open>
  \<open>process\<close>: \<open>output\<close> is \<open>outputs[0]\<close>, the list of channel buffers, and
  \<open>frequency0\<close> is \<open>parameters.frequency[0]\<close>. With no channel, \<open>output[0].length\<close>
  throws.
\<close>

definition process ::
  "(nat \<Rightarrow> real) \<Rightarrow> real \<Rightarrow> real list list \<Rightarrow> real \<Rightarrow> lfo \<Rightarrow> lfo_error + (lfo \<times> real list list)" where
  "process rnd sr output frequency0 st =
     (let st1 = (if frequency0 \<noteq> lastFrequency st then recalculateInterval sr frequency0 st else st);
          samplesPerCycle = updateInterval st1
      in case output of
           [] \<Rightarrow> Inl TypeError
         | channel0 # _ \<Rightarrow> Inr (sample_loop rnd samplesPerCycle (length channel0) 0 st1 output))"

text \<open>
  The audio thread calls \<open>process\<close> once per render quantum. \<open>render\<close> runs it over a
  list of quanta, each with its frequency value and its output buffers, and collects
  the buffers written.
\<close>

fun render ::
  "(nat \<Rightarrow> real) \<Rightarrow> real \<Rightarrow> (real \<times> real list list) list \<Rightarrow> lfo
     \<Rightarrow> lfo_error + (lfo \<times> real list list list)" where
  "render rnd sr [] st = Inr (st, [])"
| "render rnd sr ((frequency0, output) # quanta) st =
     (case process rnd sr output frequency0 st of
        Inl e \<Rightarrow> Inl e
      | Inr (st', written) \<Rightarrow>
          (case render rnd sr quanta st' of
             Inl e \<Rightarrow> Inl e
           | Inr (st'', rest) \<Rightarrow> Inr (st'', written # rest)))"

text \<open>
  What every reachable state of the processor satisfies: the interval is the one
  \<open>_recalculateInterval\<close> computed for the last frequency seen, and the phase is finite.
\<close>

definition lfo_ok :: "real \<Rightarrow> lfo \<Rightarrow> bool" where
  "lfo_ok sr st =
     (updateInterval st = (if lastFrequency st > 0 then Fin (sr / lastFrequency st) else PosInf)
      \<and> isFinite (phase st))"



text \<open>A random source for the examples: every call returns \<open>3/4\<close>.\<close>

definition flat_random :: "nat \<Rightarrow> real" where
  "flat_random i = 3 / 4"

section \<open>The synthesizer: data\<close>

text \<open>
  The automation calls the code makes on an \<open>AudioParam\<close>. The host engine renders
  them; the model records them in the order of the calls. Values passed are numbers;
  times are seconds on the context's clock.
\<close>

datatype call =
    CancelScheduledValues real
  | SetValueAtTime jsnum real
  | LinearRampToValueAtTime jsnum real
  | SetTargetAtTime jsnum real real

text \<open>
  An \<open>AudioParam\<close>: \<open>pvalue\<close> is what its \<open>value\<close> attribute reads (or was last
  assigned), \<open>calls\<close> the automation calls made on it so far.
\<close>

record audio_param =
  pvalue :: real
  calls :: "call list"

datatype node_id =
    MasterGain | Vco1 | Vco2 | Vco1Gain | Vco2Gain | NoiseSource | NoiseGain | Filter
  | VcaGainNode | Lfo | Vco1LfoGain | Vco2LfoGain | VcfLfoGain | VcaLfoGain | VcfEnvGain
  | Reverb | ReverbWetGain | ReverbDryGain

datatype param_name = Gain | Frequency | Detune | QFactor

type_synonym param_id = "node_id \<times> param_name"

datatype context_state = Suspended | Running | Closed

record audio_context =
  cstate :: context_state
  sampleRate :: real
  currentTime :: real

datatype level = LogInfo | LogWarn | LogError

type_synonym log_entry = "level \<times> string"

text \<open>
  The \<open>params\<close> object. Numbers are finite (reals); the octave index is kept as a
  JavaScript value, since \<open>calculateVcoFrequency\<close> tests its type.
\<close>

record vco_params =
  octave :: jsval
  wave :: string

record env_params =
  attack :: real
  decay :: real
  sustain :: real
  release :: real

record synth_params =
  masterTune :: real
  portamentoTime :: real
  keyFollow :: real
  legato :: real
  vco1 :: vco_params
  vco2 :: vco_params
  vco2_detune :: real
  vcfEnv :: env_params
  vcaEnv :: env_params
  lfo_frequency :: real
  lfo_type :: string
  vco1Gain :: real
  vco2Gain :: real
  noiseGain :: real
  filter_frequency :: real
  filter_Q :: real
  filter_type :: string
  vco1LfoGain :: real
  vco2LfoGain :: real
  vcfLfoGain :: real
  vcaLfoGain :: real
  vcfEnvGain :: real
  reverbWetGain :: real
  masterGain :: real

definition default_params :: synth_params where
  "default_params =
     \<lparr>masterTune = 0, portamentoTime = 0, keyFollow = 0, legato = 1,
      vco1 = \<lparr>octave = JNum (Fin 2), wave = ''sawtooth''\<rparr>,
      vco2 = \<lparr>octave = JNum (Fin 2), wave = ''sawtooth''\<rparr>,
      vco2_detune = 0,
      vcfEnv = \<lparr>attack = 0.01, decay = 0.1, sustain = 0.8, release = 0.2\<rparr>,
      vcaEnv = \<lparr>attack = 0.01, decay = 0.1, sustain = 1.0, release = 0.2\<rparr>,
      lfo_frequency = 5, lfo_type = ''square'',
      vco1Gain = 0.7, vco2Gain = 0.7, noiseGain = 0,
      filter_frequency = 20000, filter_Q = 1, filter_type = ''lowpass'',
      vco1LfoGain = 0, vco2LfoGain = 0, vcfLfoGain = 0, vcaLfoGain = 0,
      vcfEnvGain = 4000, reverbWetGain = 0.2, masterGain = 0.5\<rparr>"

text \<open>
  The module-level state. \<open>nodes n\<close> tells whether the variable of node \<open>n\<close> holds a
  node; \<open>aparam\<close> is the store of the nodes' \<open>AudioParam\<close>s and \<open>ntype\<close> that of the
  \<open>type\<close> attributes. \<open>pressedKeys\<close> is an object used as a dictionary: an association
  list in insertion order. \<open>console\<close> collects what is logged.
\<close>

record synth =
  audioContext :: "audio_context option"
  isAudioInitialized :: bool
  isAudioResumed :: bool
  params :: synth_params
  pressedKeys :: "(string \<times> bool) list"
  currentNote :: "int option"
  currentFrequency :: real
  nodes :: "node_id \<Rightarrow> bool"
  aparam :: "param_id \<Rightarrow> audio_param"
  ntype :: "node_id \<Rightarrow> string"
  powerLed :: bool
  console :: "log_entry list"

definition octaveMultipliers :: "real list" where
  "octaveMultipliers = [1/8, 1/4, 1/2, 1, 2]"

definition keyToNoteMap :: "string \<Rightarrow> int option" where
  "keyToNoteMap = map_of
     [(''KeyA'', 60), (''KeyW'', 61), (''KeyS'', 62), (''KeyE'', 63), (''KeyD'', 64),
      (''KeyF'', 65), (''KeyT'', 66), (''KeyG'', 67), (''KeyY'', 68), (''KeyH'', 69),
      (''KeyU'', 70), (''KeyJ'', 71), (''KeyK'', 72)]"

section \<open>The synthesizer: utility functions\<close>

definition midiToFreq :: "int \<Rightarrow> real" where
  "midiToFreq midiNote = 440 * 2 powr ((real_of_int midiNote - 69) / 12)"

definition log :: "level \<Rightarrow> string \<Rightarrow> synth \<Rightarrow> synth" where
  "log lv msg s = s\<lparr>console := console s @ [(lv, msg)]\<rparr>"

text \<open>One automation call on one \<open>AudioParam\<close>, and several in a row.\<close>

definition schedule :: "param_id \<Rightarrow> call \<Rightarrow> synth \<Rightarrow> synth" where
  "schedule p c s = s\<lparr>aparam := (aparam s)(p := (aparam s p)\<lparr>calls := calls (aparam s p) @ [c]\<rparr>)\<rparr>"

text \<open>The assignment \<open>param.value = v\<close>.\<close>

definition assign_value :: "param_id \<Rightarrow> real \<Rightarrow> synth \<Rightarrow> synth" where
  "assign_value p v s = s\<lparr>aparam := (aparam s)(p := (aparam s p)\<lparr>pvalue := v\<rparr>)\<rparr>"

text \<open>
  \<open>octaveMultipliers[octaveIndex]\<close> for a number: the element when the number is an
  index of the array, \<open>undefined\<close> otherwise, which the multiplication turns into
  \<open>NaN\<close>.
\<close>

definition multiplier_at :: "jsnum \<Rightarrow> jsnum" where
  "multiplier_at i =
     (case i of
        Fin r \<Rightarrow>
          (if of_int \<lfloor>r\<rfloor> = r \<and> 0 \<le> r \<and> r < real (length octaveMultipliers)
           then Fin (octaveMultipliers ! nat \<lfloor>r\<rfloor>) else NaN)
      | _ \<Rightarrow> NaN)"

text \<open>
  The validation test of \<open>calculateVcoFrequency\<close>:
  \<open>typeof i !== 'number' || isNaN(i) || i < 0 || i >= octaveMultipliers.length\<close>.
\<close>

definition invalid_octave :: "jsval \<Rightarrow> bool" where
  "invalid_octave v =
     (case v of
        JNum n \<Rightarrow> n = NaN \<or> num_lt n (Fin 0) \<or> num_ge n (Fin (real (length octaveMultipliers)))
      | _ \<Rightarrow> True)"

text \<open>
  \<open>calculateVcoFrequency(baseFreq, vcoParams)\<close> with the context's sample rate. It
  returns the frequency, the parameter record (whose octave it may correct) and what it
  logs.
\<close>

definition calculateVcoFrequency ::
  "real \<Rightarrow> jsnum \<Rightarrow> vco_params \<Rightarrow> jsnum \<times> vco_params \<times> log_entry list" where
  "calculateVcoFrequency sr baseFreq vcoParams =
     (let invalid = invalid_octave (octave vcoParams);
          octaveIndex = (if invalid then Fin 2
                         else (case octave vcoParams of JNum n \<Rightarrow> n | _ \<Rightarrow> NaN));
          vcoParams' = (if invalid then vcoParams\<lparr>octave := JNum (Fin 2)\<rparr> else vcoParams);
          warned = (if invalid then [(LogWarn, ''Invalid VCO Octave Index, defaulting to 2'')] else []);
          freq = num_mult baseFreq (multiplier_at octaveIndex);
          safeFreq = math_max (Fin 20) (math_min (Fin (sr / 2)) freq)
      in if \<not> isFinite safeFreq
         then (Fin 440, vcoParams',
               warned @ [(LogError, ''FATAL: Calculated VCO frequency is non-finite!'')])
         else (safeFreq, vcoParams', warned))"

section \<open>The synthesizer: envelopes\<close>

text \<open>
  \<open>targetParam\<close> is \<open>None\<close> when the caller passes no \<open>AudioParam\<close>. The default
  arguments \<open>isVcf = false\<close> and \<open>baseNote = 69\<close> are written out at the calls.
\<close>

definition triggerEnvelope ::
  "env_params \<Rightarrow> param_id option \<Rightarrow> real \<Rightarrow> real \<Rightarrow> bool \<Rightarrow> int \<Rightarrow> synth \<Rightarrow> synth" where
  "triggerEnvelope envParams targetParam sustainValue now isVcf baseNote s =
     (case (audioContext s, targetParam) of
        (Some ctx, Some target) \<Rightarrow>
          (let safeAttack = max 0.001 (attack envParams);
               safeDecay = max 0.001 (decay envParams);
               s1 = schedule target (CancelScheduledValues now) s
           in if isVcf then
                (let knobBaseFreq = filter_frequency (params s1);
                     envModAmount = vcfEnvGain (params s1);
                     keyFollowAmount =
                       (if keyFollow (params s1) > 0.5 then (real_of_int baseNote - 69) / 12 else 0);
                     keyFollowHz = keyFollowAmount * (knobBaseFreq * 0.2);
                     baseFreqWithKeyFollow = max 20 (knobBaseFreq + keyFollowHz);
                     attackPeakFreq = baseFreqWithKeyFollow + envModAmount;
                     sustainLevelFreq = baseFreqWithKeyFollow + (sustainValue * envModAmount);
                     clampedBaseFreq = min (sampleRate ctx / 2) (max 20 baseFreqWithKeyFollow);
                     clampedPeakFreq = min (sampleRate ctx / 2) (max 20 attackPeakFreq);
                     clampedSustainFreq = min (sampleRate ctx / 2) (max 20 sustainLevelFreq)
                 in schedule target (LinearRampToValueAtTime (Fin clampedSustainFreq) (now + safeAttack + safeDecay))
                      (schedule target (LinearRampToValueAtTime (Fin clampedPeakFreq) (now + safeAttack))
                         (schedule target (SetValueAtTime (Fin clampedBaseFreq) now) s1)))
              else
                (let peakVal = 1.0;
                     sustainLevel = max 0.0001 sustainValue
                 in schedule target (LinearRampToValueAtTime (Fin sustainLevel) (now + safeAttack + safeDecay))
                      (schedule target (LinearRampToValueAtTime (Fin peakVal) (now + safeAttack))
                         (schedule target (SetValueAtTime (Fin 0.0001) now) s1))))
      | _ \<Rightarrow> s)"

definition releaseEnvelope ::
  "env_params \<Rightarrow> param_id option \<Rightarrow> real \<Rightarrow> bool \<Rightarrow> int \<Rightarrow> synth \<Rightarrow> synth" where
  "releaseEnvelope envParams targetParam now isVcf baseNote s =
     (case (audioContext s, targetParam) of
        (Some ctx, Some target) \<Rightarrow>
          (let safeRelease = max 0.001 (release envParams);
               s1 = schedule target (CancelScheduledValues now) s;
               releaseTargetValue =
                 (if isVcf then
                    (let knobBaseFreq = filter_frequency (params s1);
                         keyFollowAmount =
                           (if keyFollow (params s1) > 0.5 then (real_of_int baseNote - 69) / 12 else 0);
                         keyFollowHz = keyFollowAmount * (knobBaseFreq * 0.2);
                         baseFreqWithKeyFollow = max 20 (knobBaseFreq + keyFollowHz)
                     in min (sampleRate ctx / 2) (max 20 baseFreqWithKeyFollow))
                  else 0.0001)
           in schedule target (LinearRampToValueAtTime (Fin releaseTargetValue) (now + safeRelease))
                (schedule target (SetValueAtTime (Fin (pvalue (aparam s1 target))) now) s1))
      | _ \<Rightarrow> s)"

definition triggerEnvelopes :: "int \<Rightarrow> real \<Rightarrow> synth \<Rightarrow> synth" where
  "triggerEnvelopes note now s =
     (if \<not> nodes s Filter \<or> \<not> nodes s VcaGainNode then s
      else triggerEnvelope (vcaEnv (params s)) (Some (VcaGainNode, Gain)) (sustain (vcaEnv (params s))) now False 69
             (triggerEnvelope (vcfEnv (params s)) (Some (Filter, Frequency)) (sustain (vcfEnv (params s))) now True note s))"

definition releaseEnvelopes :: "int \<Rightarrow> real \<Rightarrow> synth \<Rightarrow> synth" where
  "releaseEnvelopes note now s =
     (if \<not> nodes s Filter \<or> \<not> nodes s VcaGainNode then s
      else releaseEnvelope (vcaEnv (params s)) (Some (VcaGainNode, Gain)) now False 69
             (releaseEnvelope (vcfEnv (params s)) (Some (Filter, Frequency)) now True note s))"


section \<open>The synthesizer: monophonic note handling\<close>

text \<open>Automation calls in the order the code makes them.\<close>

definition schedule_all :: "(param_id \<times> call) list \<Rightarrow> synth \<Rightarrow> synth" where
  "schedule_all cs s = fold (\<lambda>(p, c). schedule p c) cs s"

definition noteOn :: "int \<Rightarrow> real \<Rightarrow> synth \<Rightarrow> synth" where
  "noteOn note freq s =
     (case audioContext s of
        None \<Rightarrow> log LogError ''noteOn called but audio context not running or VCOs not ready!'' s
      | Some ctx \<Rightarrow>
          if cstate ctx \<noteq> Running \<or> \<not> nodes s Vco1 \<or> \<not> nodes s Vco2
          then log LogError ''noteOn called but audio context not running or VCOs not ready!'' s
          else
            (let now = currentTime ctx;
                 portamento = (if portamentoTime (params s) > 0.005 then portamentoTime (params s) else 0);
                 shouldRetrigger = (legato (params s) < 0.5);
                 (targetOsc1Freq, vco1', log1) =
                    calculateVcoFrequency (sampleRate ctx) (Fin freq) (vco1 (params s));
                 s1 = s\<lparr>params := (params s)\<lparr>vco1 := vco1'\<rparr>, console := console s @ log1\<rparr>;
                 (targetOsc2Freq, vco2', log2) =
                    calculateVcoFrequency (sampleRate ctx) (Fin freq) (vco2 (params s1));
                 s2 = s1\<lparr>params := (params s1)\<lparr>vco2 := vco2'\<rparr>, console := console s1 @ log2\<rparr>
             in if currentNote s2 \<noteq> None then
                  (let s3 = s2\<lparr>currentFrequency := freq, currentNote := Some note\<rparr>;
                       s4 = (if portamento > 0
                             then schedule_all
                                    [((Vco1, Frequency), CancelScheduledValues now),
                                     ((Vco2, Frequency), CancelScheduledValues now),
                                     ((Vco1, Frequency), SetTargetAtTime targetOsc1Freq now (portamento / 4)),
                                     ((Vco2, Frequency), SetTargetAtTime targetOsc2Freq now (portamento / 4))] s3
                             else schedule_all
                                    [((Vco1, Frequency), CancelScheduledValues now),
                                     ((Vco2, Frequency), CancelScheduledValues now),
                                     ((Vco1, Frequency), SetValueAtTime targetOsc1Freq now),
                                     ((Vco2, Frequency), SetValueAtTime targetOsc2Freq now)] s3)
                   in if shouldRetrigger then triggerEnvelopes note now s4 else s4)
                else
                  (let s3 = s2\<lparr>currentFrequency := freq, currentNote := Some note\<rparr>;
                       s4 = schedule_all
                              [((Vco1, Frequency), CancelScheduledValues now),
                               ((Vco2, Frequency), CancelScheduledValues now),
                               ((Vco1, Frequency), SetValueAtTime targetOsc1Freq now),
                               ((Vco2, Frequency), SetValueAtTime targetOsc2Freq now)] s3
                   in triggerEnvelopes note now s4)))"

text \<open>
  \<open>keyToNoteMap[code]\<close> used as a condition: true for a code that has a note, the note
  not being 0.
\<close>

definition note_truthy :: "int option \<Rightarrow> bool" where
  "note_truthy n = (case n of None \<Rightarrow> False | Some k \<Rightarrow> k \<noteq> 0)"

text \<open>\<open>pressedKeys[code]\<close> used as a condition.\<close>

definition key_pressed :: "synth \<Rightarrow> string \<Rightarrow> bool" where
  "key_pressed s code = (map_of (pressedKeys s) code = Some True)"

definition remainingHeldCodes :: "synth \<Rightarrow> string list" where
  "remainingHeldCodes s =
     filter (\<lambda>code. key_pressed s code \<and> note_truthy (keyToNoteMap code)) (map fst (pressedKeys s))"

text \<open>The \<open>forEach\<close> of \<open>noteOff\<close> that looks for the highest held note.\<close>

definition lastNotePriority :: "string list \<Rightarrow> int \<times> real" where
  "lastNotePriority codes =
     fold (\<lambda>code (lastNote, lastNoteFreq).
             (case keyToNoteMap code of
                None \<Rightarrow> (lastNote, lastNoteFreq)
              | Some heldNote \<Rightarrow>
                  if heldNote > lastNote then (heldNote, midiToFreq heldNote)
                  else (lastNote, lastNoteFreq)))
          codes (- 1, 0)"

text \<open>
  \<open>noteOff\<close>. Reading \<open>audioContext.currentTime\<close> without a context throws; the
  exception ends the handler before any assignment.
\<close>

definition noteOff :: "int \<Rightarrow> synth \<Rightarrow> synth" where
  "noteOff note s =
     (if \<not> isAudioInitialized s \<or> \<not> isAudioResumed s \<or> currentNote s = None
          \<or> \<not> nodes s Vco1 \<or> \<not> nodes s Vco2
      then s
      else
        (let remaining = remainingHeldCodes s in
         if currentNote s = Some note then
           (case audioContext s of
              None \<Rightarrow> log LogError ''Uncaught TypeError: audioContext is undefined'' s
            | Some ctx \<Rightarrow>
                if remaining \<noteq> [] then
                  (let (lastNote, lastNoteFreq) = lastNotePriority remaining;
                       now = currentTime ctx;
                       portamento = (if portamentoTime (params s) > 0.005 then portamentoTime (params s) else 0);
                       (targetOsc1Freq, vco1', log1) =
                          calculateVcoFrequency (sampleRate ctx) (Fin lastNoteFreq) (vco1 (params s));
                       s1 = s\<lparr>params := (params s)\<lparr>vco1 := vco1'\<rparr>, console := console s @ log1\<rparr>;
                       (targetOsc2Freq, vco2', log2) =
                          calculateVcoFrequency (sampleRate ctx) (Fin lastNoteFreq) (vco2 (params s1));
                       s2 = s1\<lparr>params := (params s1)\<lparr>vco2 := vco2'\<rparr>, console := console s1 @ log2\<rparr>;
                       s3 = s2\<lparr>currentFrequency := lastNoteFreq, currentNote := Some lastNote\<rparr>
                   in if portamento > 0
                      then schedule_all
                             [((Vco1, Frequency), CancelScheduledValues now),
                              ((Vco2, Frequency), CancelScheduledValues now),
                              ((Vco1, Frequency), SetTargetAtTime targetOsc1Freq now (portamento / 4)),
                              ((Vco2, Frequency), SetTargetAtTime targetOsc2Freq now (portamento / 4))] s3
                      else schedule_all
                             [((Vco1, Frequency), CancelScheduledValues now),
                              ((Vco2, Frequency), CancelScheduledValues now),
                              ((Vco1, Frequency), SetValueAtTime targetOsc1Freq now),
                              ((Vco2, Frequency), SetValueAtTime targetOsc2Freq now)] s3)
                else
                  (let now = currentTime ctx;
                       s1 = releaseEnvelopes note now s
                   in s1\<lparr>currentNote := None, currentFrequency := 0\<rparr>))
         else s))"

section \<open>The synthesizer: audio context and initialisation\<close>

text \<open>
  What the host does with \<open>audioContext.resume()\<close>: the context runs afterwards, or
  the promise resolves with the context still not running, or it rejects.
\<close>

datatype resume_result = Resumed | NotResumed | ResumeRejected

definition ensureAudioContextResumed :: "resume_result \<Rightarrow> synth \<Rightarrow> bool \<times> synth" where
  "ensureAudioContextResumed host s =
     (case audioContext s of
        None \<Rightarrow> (False, log LogError ''Attempted to resume context, but it's not initialized.'' s)
      | Some ctx \<Rightarrow>
          if cstate ctx = Running then (True, s\<lparr>isAudioResumed := True\<rparr>)
          else if cstate ctx = Suspended then
            (let s1 = log LogInfo ''AudioContext suspended. Attempting to resume...'' s in
             case host of
               Resumed \<Rightarrow>
                 (True, (log LogInfo ''AudioContext Resumed successfully.''
                           (s1\<lparr>audioContext := Some (ctx\<lparr>cstate := Running\<rparr>)\<rparr>))
                          \<lparr>isAudioResumed := True, powerLed := True\<rparr>)
             | NotResumed \<Rightarrow>
                 (False, (log LogWarn ''AudioContext state is still not 'running' after resume attempt'' s1)
                           \<lparr>isAudioResumed := False\<rparr>)
             | ResumeRejected \<Rightarrow>
                 (False, (log LogError ''Error resuming AudioContext'' s1)\<lparr>isAudioResumed := False\<rparr>))
          else (False, (log LogWarn ''AudioContext in unexpected state'' s)\<lparr>isAudioResumed := False\<rparr>))"

text \<open>
  \<open>initAudio\<close>. \<open>host\<close> is what \<open>new AudioContext()\<close> gives: \<open>None\<close> when the
  constructor throws, the one failure of the \<open>try\<close> block that is modelled. Of the
  block the model keeps the creation of the nodes, the initial values of their
  parameters and types and the final state check; the noise and impulse buffers, the
  connections and the starting of the sources do not touch the state modelled here.
\<close>

definition initAudio :: "audio_context option \<Rightarrow> synth \<Rightarrow> synth" where
  "initAudio host s =
     (if isAudioInitialized s then s
      else
        (case host of
           None \<Rightarrow> (log LogError ''Error initializing Web Audio API'' s)\<lparr>isAudioInitialized := False\<rparr>
         | Some ctx \<Rightarrow>
             (let s1 = s\<lparr>audioContext := Some ctx, isAudioInitialized := True, nodes := (\<lambda>n. True)\<rparr>;
                  s2 = s1\<lparr>ntype := (ntype s1)(Vco1 := wave (vco1 (params s1)), Vco2 := wave (vco2 (params s1)))\<rparr>;
                  s3 = assign_value (VcaGainNode, Gain) 0 s2;
                  s4 = assign_value (MasterGain, Gain) (masterGain (params s3)) s3;
                  s5 = assign_value (Vco1Gain, Gain) (vco1Gain (params s4)) s4;
                  s6 = assign_value (Vco2Gain, Gain) (vco2Gain (params s5)) s5;
                  s7 = assign_value (NoiseGain, Gain) (noiseGain (params s6)) s6;
                  s8 = assign_value (Vco1LfoGain, Gain) (vco1LfoGain (params s7)) s7;
                  s9 = assign_value (Vco2LfoGain, Gain) (vco2LfoGain (params s8)) s8;
                  s10 = assign_value (VcfLfoGain, Gain) (vcfLfoGain (params s9)) s9;
                  s11 = assign_value (VcaLfoGain, Gain) (vcaLfoGain (params s10)) s10;
                  s12 = assign_value (VcfEnvGain, Gain) (vcfEnvGain (params s11)) s11;
                  wetLevel = reverbWetGain (params s12);
                  s13 = assign_value (ReverbWetGain, Gain) wetLevel s12;
                  s14 = assign_value (ReverbDryGain, Gain) (1.0 - wetLevel) s13;
                  s15 = assign_value (Lfo, Frequency) (lfo_frequency (params s14)) s14;
                  s16 = s15\<lparr>ntype := (ntype s15)(Lfo := lfo_type (params s15))\<rparr>;
                  s17 = assign_value (Vco1, Detune) (masterTune (params s16)) s16;
                  s18 = assign_value (Vco2, Detune) (masterTune (params s17) + vco2_detune (params s17)) s17;
                  s19 = s18\<lparr>ntype := (ntype s18)(Filter := filter_type (params s18))\<rparr>;
                  s20 = assign_value (Filter, Frequency) (filter_frequency (params s19)) s19;
                  s21 = assign_value (Filter, QFactor) (filter_Q (params s20)) s20
              in if cstate ctx = Running
                 then (log LogInfo ''Audio graph initialized and context is running.'' s21)
                        \<lparr>isAudioResumed := True, powerLed := True\<rparr>
                 else (log LogInfo ''Audio graph initialized, but context is suspended.'' s21)
                        \<lparr>isAudioResumed := False, powerLed := False\<rparr>)))"


section \<open>The synthesizer: the parameter router\<close>

text \<open>
  The value a control resolves to (\<open>actualAudioValue\<close>): a number, a string (a waveform
  or filter type, or a step label that is not a number), or \<open>undefined\<close>.
\<close>

datatype aval = AUndefined | ANum real | AStr string

text \<open>
  The control \<open>updateParameter\<close> is called with, together with the new value passed
  for it: a continuous knob with its \<open>data-min\<close>, \<open>data-max\<close> and the number passed; a
  stepped knob with its \<open>data-steps\<close>, each step already read the way the function reads
  it (the number \<open>parseFloat\<close> finds, else the string itself), and the number passed; a
  switch with its \<open>data-values\<close>, if it has any, and the state passed; an element that
  is neither knob nor switch. The numbers are finite. The drawing of the control
  (\<open>updateKnobVisual\<close>, \<open>updateSwitchVisual\<close>, the \<open>dataset\<close>) is not part of the
  model.
\<close>

datatype control =
    ContinuousKnob real real real
  | SteppedKnob "aval list" real
  | Switch "string list option" string
  | OtherElement

definition resolve_control :: "control \<Rightarrow> aval" where
  "resolve_control c =
     (case c of
        ContinuousKnob mn mx numericNewValue \<Rightarrow> ANum (max mn (min mx numericNewValue))
      | SteppedKnob steps numericNewValue \<Rightarrow>
          (let stepIndex = max 0 (min (int (length steps) - 1) (round numericNewValue))
           in if nat stepIndex < length steps then steps ! nat stepIndex else AUndefined)
      | Switch values state \<Rightarrow>
          (case values of
             Some vs \<Rightarrow>
               (if state = ''up''
                then (if 0 < length vs then AStr (vs ! 0) else AUndefined)
                else (if 1 < length vs then AStr (vs ! 1) else AUndefined))
           | None \<Rightarrow> (if state = ''up'' then ANum 1 else ANum 0))
      | OtherElement \<Rightarrow> AUndefined)"

text \<open>
  The update of the \<open>params\<close> object along the path. A path that ends at an object
  with a \<open>value\<close> property sets that property when the value is a number. The record is
  typed: a number goes to a numeric field, a string to a type field, anything to an
  octave; a value of another sort for the field, and a path the record has no field
  for, leave the record as it is.
\<close>

definition set_number :: "string \<Rightarrow> real \<Rightarrow> synth_params \<Rightarrow> synth_params" where
  "set_number path x p =
     (if path = ''masterTune'' then p\<lparr>masterTune := x\<rparr>
      else if path = ''portamentoTime'' then p\<lparr>portamentoTime := x\<rparr>
      else if path = ''keyFollow'' then p\<lparr>keyFollow := x\<rparr>
      else if path = ''legato'' then p\<lparr>legato := x\<rparr>
      else if path = ''vco2.detune.value'' \<or> path = ''vco2.detune'' then p\<lparr>vco2_detune := x\<rparr>
      else if path = ''vcfEnv.attack'' then p\<lparr>vcfEnv := (vcfEnv p)\<lparr>attack := x\<rparr>\<rparr>
      else if path = ''vcfEnv.decay'' then p\<lparr>vcfEnv := (vcfEnv p)\<lparr>decay := x\<rparr>\<rparr>
      else if path = ''vcfEnv.sustain'' then p\<lparr>vcfEnv := (vcfEnv p)\<lparr>sustain := x\<rparr>\<rparr>
      else if path = ''vcfEnv.release'' then p\<lparr>vcfEnv := (vcfEnv p)\<lparr>release := x\<rparr>\<rparr>
      else if path = ''vcaEnv.attack'' then p\<lparr>vcaEnv := (vcaEnv p)\<lparr>attack := x\<rparr>\<rparr>
      else if path = ''vcaEnv.decay'' then p\<lparr>vcaEnv := (vcaEnv p)\<lparr>decay := x\<rparr>\<rparr>
      else if path = ''vcaEnv.sustain'' then p\<lparr>vcaEnv := (vcaEnv p)\<lparr>sustain := x\<rparr>\<rparr>
      else if path = ''vcaEnv.release'' then p\<lparr>vcaEnv := (vcaEnv p)\<lparr>release := x\<rparr>\<rparr>
      else if path = ''lfo.frequency.value'' \<or> path = ''lfo.frequency'' then p\<lparr>lfo_frequency := x\<rparr>
      else if path = ''vco1Gain.gain.value'' \<or> path = ''vco1Gain.gain'' then p\<lparr>vco1Gain := x\<rparr>
      else if path = ''vco2Gain.gain.value'' \<or> path = ''vco2Gain.gain'' then p\<lparr>vco2Gain := x\<rparr>
      else if path = ''noiseGain.gain.value'' \<or> path = ''noiseGain.gain'' then p\<lparr>noiseGain := x\<rparr>
      else if path = ''filter.frequency.value'' \<or> path = ''filter.frequency'' then p\<lparr>filter_frequency := x\<rparr>
      else if path = ''filter.Q.value'' \<or> path = ''filter.Q'' then p\<lparr>filter_Q := x\<rparr>
      else if path = ''vco1LfoGain.gain.value'' \<or> path = ''vco1LfoGain.gain'' then p\<lparr>vco1LfoGain := x\<rparr>
      else if path = ''vco2LfoGain.gain.value'' \<or> path = ''vco2LfoGain.gain'' then p\<lparr>vco2LfoGain := x\<rparr>
      else if path = ''vcfLfoGain.gain.value'' \<or> path = ''vcfLfoGain.gain'' then p\<lparr>vcfLfoGain := x\<rparr>
      else if path = ''vcaLfoGain.gain.value'' \<or> path = ''vcaLfoGain.gain'' then p\<lparr>vcaLfoGain := x\<rparr>
      else if path = ''vcfEnvGain.gain.value'' \<or> path = ''vcfEnvGain.gain'' then p\<lparr>vcfEnvGain := x\<rparr>
      else if path = ''reverbWetGain.gain.value'' \<or> path = ''reverbWetGain.gain'' then p\<lparr>reverbWetGain := x\<rparr>
      else if path = ''masterGain.gain.value'' \<or> path = ''masterGain.gain'' then p\<lparr>masterGain := x\<rparr>
      else p)"

definition set_string :: "string \<Rightarrow> string \<Rightarrow> synth_params \<Rightarrow> synth_params" where
  "set_string path t p =
     (if path = ''vco1.type'' then p\<lparr>vco1 := (vco1 p)\<lparr>wave := t\<rparr>\<rparr>
      else if path = ''vco2.type'' then p\<lparr>vco2 := (vco2 p)\<lparr>wave := t\<rparr>\<rparr>
      else if path = ''lfo.type'' then p\<lparr>lfo_type := t\<rparr>
      else if path = ''filter.type'' then p\<lparr>filter_type := t\<rparr>
      else p)"

definition aval_to_jsval :: "aval \<Rightarrow> jsval" where
  "aval_to_jsval v = (case v of AUndefined \<Rightarrow> JUndefined | ANum x \<Rightarrow> JNum (Fin x) | AStr t \<Rightarrow> JStr t)"

definition write_param :: "string \<Rightarrow> aval \<Rightarrow> synth_params \<Rightarrow> synth_params" where
  "write_param path v p =
     (if path = ''vco1.octave'' then p\<lparr>vco1 := (vco1 p)\<lparr>octave := aval_to_jsval v\<rparr>\<rparr>
      else if path = ''vco2.octave'' then p\<lparr>vco2 := (vco2 p)\<lparr>octave := aval_to_jsval v\<rparr>\<rparr>
      else (case v of
              ANum x \<Rightarrow> set_number path x p
            | AStr t \<Rightarrow> set_string path t p
            | AUndefined \<Rightarrow> p))"

text \<open>
  \<open>param.setTargetAtTime(valueToSet, now, timeConstant)\<close> inside the \<open>try\<close> block: with
  a value that is no number the call throws, and the \<open>catch\<close> logs it.
\<close>

definition set_target :: "param_id \<Rightarrow> aval \<Rightarrow> real \<Rightarrow> real \<Rightarrow> synth \<Rightarrow> synth" where
  "set_target p v now timeConstant s =
     (case v of
        ANum x \<Rightarrow> schedule p (SetTargetAtTime (Fin x) now timeConstant) s
      | _ \<Rightarrow> log LogError ''Error setting AudioNode param'' s)"

text \<open>
  The assignment \<open>node.type = valueToSet\<close>: the host keeps a string of the
  enumeration and ignores every other value; which strings the enumeration has is
  not modelled.
\<close>

definition set_type :: "node_id \<Rightarrow> aval \<Rightarrow> synth \<Rightarrow> synth" where
  "set_type n v s = (case v of AStr t \<Rightarrow> s\<lparr>ntype := (ntype s)(n := t)\<rparr> | _ \<Rightarrow> s)"

definition update_audio_node :: "string \<Rightarrow> aval \<Rightarrow> audio_context \<Rightarrow> synth \<Rightarrow> synth" where
  "update_audio_node paramPath valueToSet ctx s =
     (let now = currentTime ctx; rampTime = 0.010 in
      if paramPath = ''masterGain.gain.value'' \<and> nodes s MasterGain
        then set_target (MasterGain, Gain) valueToSet now rampTime s
      else if paramPath = ''vco1Gain.gain.value'' \<and> nodes s Vco1Gain
        then set_target (Vco1Gain, Gain) valueToSet now rampTime s
      else if paramPath = ''vco2Gain.gain.value'' \<and> nodes s Vco2Gain
        then set_target (Vco2Gain, Gain) valueToSet now rampTime s
      else if paramPath = ''noiseGain.gain.value'' \<and> nodes s NoiseGain
        then set_target (NoiseGain, Gain) valueToSet now rampTime s
      else if paramPath = ''vco1LfoGain.gain.value'' \<and> nodes s Vco1LfoGain
        then set_target (Vco1LfoGain, Gain) valueToSet now rampTime s
      else if paramPath = ''vco2LfoGain.gain.value'' \<and> nodes s Vco2LfoGain
        then set_target (Vco2LfoGain, Gain) valueToSet now rampTime s
      else if paramPath = ''vcfLfoGain.gain.value'' \<and> nodes s VcfLfoGain
        then set_target (VcfLfoGain, Gain) valueToSet now rampTime s
      else if paramPath = ''vcaLfoGain.gain.value'' \<and> nodes s VcaLfoGain
        then set_target (VcaLfoGain, Gain) valueToSet now rampTime s
      else if paramPath = ''vcfEnvGain.gain.value'' \<and> nodes s VcfEnvGain
        then set_target (VcfEnvGain, Gain) valueToSet now rampTime s
      else if paramPath = ''reverbWetGain.gain.value'' \<and> nodes s ReverbWetGain \<and> nodes s ReverbDryGain
        then (case valueToSet of
                ANum x \<Rightarrow>
                  schedule (ReverbDryGain, Gain) (SetTargetAtTime (Fin (1.0 - x)) now rampTime)
                    (schedule (ReverbWetGain, Gain) (SetTargetAtTime (Fin x) now rampTime) s)
              | _ \<Rightarrow> log LogError ''Error setting AudioNode param'' s)
      else if paramPath = ''filter.frequency.value'' \<and> nodes s Filter
        then set_target (Filter, Frequency) valueToSet now rampTime s
      else if paramPath = ''filter.Q.value'' \<and> nodes s Filter
        then set_target (Filter, QFactor) valueToSet now rampTime s
      else if paramPath = ''filter.type'' \<and> nodes s Filter then set_type Filter valueToSet s
      else if paramPath = ''lfo.frequency.value'' \<and> nodes s Lfo
        then set_target (Lfo, Frequency) valueToSet now rampTime s
      else if paramPath = ''lfo.type'' \<and> nodes s Lfo then set_type Lfo valueToSet s
      else if paramPath = ''vco1.type'' \<and> nodes s Vco1 then set_type Vco1 valueToSet s
      else if paramPath = ''vco2.type'' \<and> nodes s Vco2 then set_type Vco2 valueToSet s
      else if paramPath = ''vco1.octave'' \<and> nodes s Vco1 \<and> currentNote s \<noteq> None
        then (let (newFreq, vco1', logged) =
                     calculateVcoFrequency (sampleRate ctx) (Fin (currentFrequency s)) (vco1 (params s));
                  s1 = s\<lparr>params := (params s)\<lparr>vco1 := vco1'\<rparr>, console := console s @ logged\<rparr>
              in schedule (Vco1, Frequency) (SetTargetAtTime newFreq now (rampTime * 2)) s1)
      else if paramPath = ''vco2.octave'' \<and> nodes s Vco2 \<and> currentNote s \<noteq> None
        then (let (newFreq, vco2', logged) =
                     calculateVcoFrequency (sampleRate ctx) (Fin (currentFrequency s)) (vco2 (params s));
                  s1 = s\<lparr>params := (params s)\<lparr>vco2 := vco2'\<rparr>, console := console s @ logged\<rparr>
              in schedule (Vco2, Frequency) (SetTargetAtTime newFreq now (rampTime * 2)) s1)
      else if paramPath = ''masterTune'' \<or> paramPath = ''vco2.detune.value''
        then (let s1 = (if nodes s Vco1
                        then schedule (Vco1, Detune)
                               (SetTargetAtTime (Fin (masterTune (params s))) now rampTime) s
                        else s)
              in if nodes s1 Vco2
                 then schedule (Vco2, Detune)
                        (SetTargetAtTime (Fin (masterTune (params s1) + vco2_detune (params s1))) now rampTime) s1
                 else s1)
      else s)"

text \<open>\<open>updateParameter\<close>, for the control at \<open>paramPath\<close> (\<open>element.dataset.param\<close>).\<close>

definition updateParameter :: "string \<Rightarrow> control \<Rightarrow> bool \<Rightarrow> synth \<Rightarrow> synth" where
  "updateParameter paramPath c forceUpdate s =
     (if paramPath = [] \<or> paramPath = ''dummy.xmod'' then s
      else
        (let actualAudioValue = resolve_control c;
             s1 = s\<lparr>params := write_param paramPath actualAudioValue (params s)\<rparr>
         in if isAudioInitialized s1 \<and> (isAudioResumed s1 \<or> forceUpdate)
            then (case audioContext s1 of
                    None \<Rightarrow> s1
                  | Some ctx \<Rightarrow> update_audio_node paramPath actualAudioValue ctx s1)
            else s1))"

section \<open>The synthesizer: the keyboard listeners\<close>

text \<open>
  A keyboard event with what the listeners read besides the state: whether the
  focused element is a knob, what an arrow key on it resolves to (the path and control
  of the call of \<open>updateParameter\<close> that \<open>startArrowRepeat\<close> makes at once, if it makes
  one), and what the host does if the listener tries to resume the context. The
  listeners are taken as running to their end before the next event.
\<close>

record key_event =
  code :: string
  key :: string
  repeat :: bool
  metaKey :: bool
  ctrlKey :: bool
  altKey :: bool
  knobFocused :: bool
  arrowAdjust :: "(string \<times> control) option"
  resume :: resume_result

definition keydown :: "key_event \<Rightarrow> synth \<Rightarrow> synth" where
  "keydown e s =
     (if knobFocused e \<and> (key e = ''ArrowLeft'' \<or> key e = ''ArrowRight'')
      then (case arrowAdjust e of
              None \<Rightarrow> s
            | Some (paramPath, c) \<Rightarrow> updateParameter paramPath c False s)
      else if metaKey e \<or> ctrlKey e \<or> altKey e then s
      else
        (case keyToNoteMap (code e) of
           None \<Rightarrow> s
         | Some note \<Rightarrow>
             if note = 0 \<or> key_pressed s (code e) \<or> repeat e then s
             else
               (let (canPlay, s1) =
                      (if \<not> isAudioResumed s \<and> isAudioInitialized s
                       then ensureAudioContextResumed (resume e) s
                       else (isAudioResumed s, s))
                in if canPlay
                   then noteOn note (midiToFreq note)
                          (s1\<lparr>pressedKeys := AList.update (code e) True (pressedKeys s1)\<rparr>)
                   else if isAudioInitialized s1
                   then log LogWarn ''Audio Context not running. Please click the synth panel or power button first.'' s1
                   else log LogError ''Audio not initialized. Cannot play note.'' s1)))"

definition keyup :: "key_event \<Rightarrow> synth \<Rightarrow> synth" where
  "keyup e s =
     (let s1 = (if key e = ''Shift''
                then (case arrowAdjust e of
                        None \<Rightarrow> s
                      | Some (paramPath, c) \<Rightarrow> updateParameter paramPath c False s)
                else s)
      in case keyToNoteMap (code e) of
           None \<Rightarrow> s1
         | Some note \<Rightarrow>
             if note \<noteq> 0 \<and> key_pressed s1 (code e)
             then noteOff note (s1\<lparr>pressedKeys := AList.update (code e) False (pressedKeys s1)\<rparr>)
             else s1)"

datatype key_action = KeyDown key_event | KeyUp key_event

fun key_step :: "synth \<Rightarrow> key_action \<Rightarrow> synth" where
  "key_step s (KeyDown e) = keydown e s"
| "key_step s (KeyUp e) = keyup e s"

definition key_run :: "synth \<Rightarrow> key_action list \<Rightarrow> synth" where
  "key_run s acts = foldl key_step s acts"

text \<open>The notes of the keys held: the entries of \<open>pressedKeys\<close> that map to notes.\<close>

definition heldNotes :: "synth \<Rightarrow> int list" where
  "heldNotes s = List.map_filter keyToNoteMap (remainingHeldCodes s)"

text \<open>The state the script starts in, before \<open>initAudio\<close>.\<close>

definition initial_synth :: synth where
  "initial_synth =
     \<lparr>audioContext = None, isAudioInitialized = False, isAudioResumed = False,
      params = default_params, pressedKeys = [], currentNote = None, currentFrequency = 0,
      nodes = (\<lambda>n. False), aparam = (\<lambda>p. \<lparr>pvalue = 0, calls = []\<rparr>), ntype = (\<lambda>n. []),
      powerLed = False, console = []\<rparr>"


text \<open>A running context, and the state after \<open>initAudio\<close> with it: the examples' engine.\<close>

definition running_context :: audio_context where
  "running_context = \<lparr>cstate = Running, sampleRate = 44100, currentTime = 1\<rparr>"

definition ready_synth :: synth where
  "ready_synth = initAudio (Some running_context) initial_synth"

section \<open>Notions of the specification\<close>

text \<open>The clamp of a cutoff value to \<open>[20 Hz, nyquist]\<close>.\<close>

definition clamp_cutoff :: "real \<Rightarrow> real \<Rightarrow> real" where
  "clamp_cutoff sr x = min (sr / 2) (max 20 x)"

text \<open>
  The key-follow offset of the filter cutoff for the note \<open>n\<close>: \<open>(n - 69) / 12\<close> octaves
  times a fifth of the cutoff knob's value, when key-follow is on.
\<close>

definition keyFollowOffset :: "synth_params \<Rightarrow> int \<Rightarrow> real" where
  "keyFollowOffset p n =
     (if keyFollow p > 0.5 then (real_of_int n - 69) / 12 else 0) * (filter_frequency p * 0.2)"

text \<open>The base of the filter envelope: knob value plus offset, not below 20 Hz.\<close>

definition cutoff_base :: "synth_params \<Rightarrow> int \<Rightarrow> real" where
  "cutoff_base p n = max 20 (filter_frequency p + keyFollowOffset p n)"





text \<open>The state with the calls \<open>cs\<close> appended to the parameter \<open>p\<close>.\<close>

definition with_calls :: "param_id \<Rightarrow> call list \<Rightarrow> synth \<Rightarrow> synth" where
  "with_calls p cs s = s\<lparr>aparam := (aparam s)(p := (aparam s p)\<lparr>calls := calls (aparam s p) @ cs\<rparr>)\<rparr>"

text \<open>
  Two more example states: the engine with the cutoff knob at 20 Hz and key-follow on,
  and the engine whose gate gain reads 0.7 at the moment.
\<close>

definition low_cutoff_synth :: synth where
  "low_cutoff_synth = ready_synth\<lparr>params := default_params\<lparr>filter_frequency := 20, keyFollow := 1\<rparr>\<rparr>"

definition sounding_gate_synth :: synth where
  "sounding_gate_synth = assign_value (VcaGainNode, Gain) 0.7 ready_synth"

text \<open>
  The call that moves an oscillator to the frequency \<open>f\<close>: an exponential approach with
  the time constant \<open>portamentoTime / 4\<close> when the portamento time exceeds 0.005 s, a
  jump otherwise.
\<close>

definition pitch_call :: "synth_params \<Rightarrow> jsnum \<Rightarrow> real \<Rightarrow> call" where
  "pitch_call p f now =
     (if portamentoTime p > 0.005 then SetTargetAtTime f now (portamentoTime p / 4)
      else SetValueAtTime f now)"

text \<open>The calls of a trigger on the filter cutoff, for the note \<open>n\<close>, and on the gate gain.\<close>

definition filter_trigger_calls :: "audio_context \<Rightarrow> synth_params \<Rightarrow> int \<Rightarrow> call list" where
  "filter_trigger_calls ctx p n =
     [CancelScheduledValues (currentTime ctx),
      SetValueAtTime (Fin (clamp_cutoff (sampleRate ctx) (cutoff_base p n))) (currentTime ctx),
      LinearRampToValueAtTime
        (Fin (clamp_cutoff (sampleRate ctx) (cutoff_base p n + vcfEnvGain p)))
        (currentTime ctx + max 0.001 (attack (vcfEnv p))),
      LinearRampToValueAtTime
        (Fin (clamp_cutoff (sampleRate ctx) (cutoff_base p n + sustain (vcfEnv p) * vcfEnvGain p)))
        (currentTime ctx + max 0.001 (attack (vcfEnv p)) + max 0.001 (decay (vcfEnv p)))]"

definition gate_trigger_calls :: "audio_context \<Rightarrow> synth_params \<Rightarrow> call list" where
  "gate_trigger_calls ctx p =
     [CancelScheduledValues (currentTime ctx),
      SetValueAtTime (Fin 0.0001) (currentTime ctx),
      LinearRampToValueAtTime (Fin 1) (currentTime ctx + max 0.001 (attack (vcaEnv p))),
      LinearRampToValueAtTime (Fin (max 0.0001 (sustain (vcaEnv p))))
        (currentTime ctx + max 0.001 (attack (vcaEnv p)) + max 0.001 (decay (vcaEnv p)))]"

text \<open>The engine is running: a running context and the nodes the voice needs.\<close>

definition engine_running :: "synth \<Rightarrow> audio_context \<Rightarrow> bool" where
  "engine_running s ctx =
     (audioContext s = Some ctx \<and> cstate ctx = Running \<and> nodes s Vco1 \<and> nodes s Vco2
      \<and> nodes s Filter \<and> nodes s VcaGainNode)"

text \<open>The state \<open>noteOn\<close> and \<open>noteOff\<close> reach before they schedule the pitch.\<close>

definition retuned :: "audio_context \<Rightarrow> int \<Rightarrow> real \<Rightarrow> synth \<Rightarrow> synth" where
  "retuned ctx note freq s =
     s\<lparr>params := (params s)
          \<lparr>vco1 := fst (snd (calculateVcoFrequency (sampleRate ctx) (Fin freq) (vco1 (params s)))),
           vco2 := fst (snd (calculateVcoFrequency (sampleRate ctx) (Fin freq) (vco2 (params s))))\<rparr>,
       console := console s
          @ snd (snd (calculateVcoFrequency (sampleRate ctx) (Fin freq) (vco1 (params s))))
          @ snd (snd (calculateVcoFrequency (sampleRate ctx) (Fin freq) (vco2 (params s)))),
       currentFrequency := freq, currentNote := Some note\<rparr>"

text \<open>The four calls that move both oscillators to the base frequency \<open>freq\<close>.\<close>

definition pitch_calls :: "audio_context \<Rightarrow> synth_params \<Rightarrow> real \<Rightarrow> (param_id \<times> call) list" where
  "pitch_calls ctx p freq =
     [((Vco1, Frequency), CancelScheduledValues (currentTime ctx)),
      ((Vco2, Frequency), CancelScheduledValues (currentTime ctx)),
      ((Vco1, Frequency),
         pitch_call p (fst (calculateVcoFrequency (sampleRate ctx) (Fin freq) (vco1 p))) (currentTime ctx)),
      ((Vco2, Frequency),
         pitch_call p (fst (calculateVcoFrequency (sampleRate ctx) (Fin freq) (vco2 p))) (currentTime ctx))]"

text \<open>An example state: the engine with the key A down and its note, 60, sounding.\<close>

definition sounding_synth :: synth where
  "sounding_synth =
     ready_synth\<lparr>pressedKeys := [(''KeyA'', True)], currentNote := Some 60,
                 currentFrequency := midiToFreq 60\<rparr>"

text \<open>The state a key-up listener passes to \<open>noteOff\<close>: the key marked as up.\<close>

definition key_released :: "string \<Rightarrow> synth \<Rightarrow> synth" where
  "key_released c s = s\<lparr>pressedKeys := AList.update c False (pressedKeys s)\<rparr>"

text \<open>
  An example: the keys A, H and K are down, the note of K, 72, sounds; and the event of
  the key K.
\<close>

definition held_keys_synth :: synth where
  "held_keys_synth =
     ready_synth\<lparr>pressedKeys := [(''KeyA'', True), (''KeyH'', True), (''KeyK'', True)],
                 currentNote := Some 72, currentFrequency := midiToFreq 72\<rparr>"

definition key_K :: key_event where
  "key_K = \<lparr>code = ''KeyK'', key = ''k'', repeat = False, metaKey = False, ctrlKey = False,
            altKey = False, knobFocused = False, arrowAdjust = None, resume = NotResumed\<rparr>"








section \<open>Properties of the held-value generator\<close>


lemma frame_fields [simp]:
  "updateInterval (frame rnd T st) = updateInterval st"
  "lastFrequency (frame rnd T st) = lastFrequency st"
  by (simp_all add: frame_def Let_def)

lemma frames_fields [simp]:
  "updateInterval ((frame rnd T ^^ n) st) = updateInterval st"
  "lastFrequency ((frame rnd T ^^ n) st) = lastFrequency st"
  by (induction n) simp_all

lemma sample_loop_state:
  "fst (sample_loop rnd T k i st out) = (frame rnd T ^^ k) st"
  by (induction k arbitrary: i st out) (simp_all add: Let_def funpow_swap1)

lemma sample_loop_length:
  "length (snd (sample_loop rnd T k i st out)) = length out"
  by (induction k arbitrary: i st out) (simp_all add: Let_def)

lemma sample_loop_channel:
  "c < length out \<Longrightarrow>
   snd (sample_loop rnd T k i st out) ! c =
     map (\<lambda>j. if i \<le> j \<and> j < i + k then currentValue ((frame rnd T ^^ Suc (j - i)) st) else (out ! c) ! j)
       [0..<length (out ! c)]"
proof (induction k arbitrary: i st out)
  case 0
  then show ?case by (auto intro!: nth_equalityI)
next
  case (Suc k)
  have "snd (sample_loop rnd T (Suc k) i st out) ! c
      = snd (sample_loop rnd T k (Suc i) (frame rnd T st)
           (map (\<lambda>channel. channel[i := currentValue (frame rnd T st)]) out)) ! c"
    by (simp add: Let_def)
  also have "\<dots> = map (\<lambda>j. if Suc i \<le> j \<and> j < Suc i + k
                 then currentValue ((frame rnd T ^^ Suc (j - Suc i)) (frame rnd T st))
                 else ((out ! c)[i := currentValue (frame rnd T st)]) ! j)
       [0..<length (out ! c)]"
    using Suc.prems by (subst Suc.IH) simp_all
  also have "\<dots> = map (\<lambda>j. if i \<le> j \<and> j < i + Suc k then currentValue ((frame rnd T ^^ Suc (j - i)) st) else (out ! c) ! j)
       [0..<length (out ! c)]"
  proof (rule map_cong[OF refl])
    fix j assume "j \<in> set [0..<length (out ! c)]"
    then have jl: "j < length (out ! c)" by simp
    show "(if Suc i \<le> j \<and> j < Suc i + k
                 then currentValue ((frame rnd T ^^ Suc (j - Suc i)) (frame rnd T st))
                 else ((out ! c)[i := currentValue (frame rnd T st)]) ! j)
        = (if i \<le> j \<and> j < i + Suc k then currentValue ((frame rnd T ^^ Suc (j - i)) st) else (out ! c) ! j)"
    proof (cases "j = i")
      case True
      then show ?thesis using jl by simp
    next
      case False
      show ?thesis
      proof (cases "Suc i \<le> j \<and> j < Suc i + k")
        case True
        then have e: "j - i = Suc (j - Suc i)" by arith
        have "(frame rnd T ^^ Suc (j - i)) st = (frame rnd T ^^ Suc (j - Suc i)) (frame rnd T st)"
          by (simp only: e funpow_Suc_right o_apply)
        moreover have "i \<le> j \<and> j < i + Suc k" using True by arith
        ultimately show ?thesis using True by (simp del: funpow.simps)
      next
        case F2: False
        then show ?thesis using False by auto
      qed
    qed
  qed
  finally show ?case .
qed



lemma sample_loop_output:
  "snd (sample_loop rnd T k i st out) =
     map (\<lambda>ch. map (\<lambda>j. if i \<le> j \<and> j < i + k
                           then currentValue ((frame rnd T ^^ Suc (j - i)) st) else ch ! j)
                  [0..<length ch]) out"
  by (rule nth_equalityI) (simp_all add: sample_loop_length sample_loop_channel)

lemma isFinite_iff: "isFinite x = (\<exists>p. x = Fin p)"
  by (cases x) simp_all

lemma frame_frozen:
  "phase st = Fin p \<Longrightarrow> frame rnd PosInf st = st\<lparr>phase := Fin (p + 1)\<rparr>"
  by (simp add: frame_def Let_def num_ge_def)

lemma frames_frozen:
  "phase st = Fin p \<Longrightarrow> (frame rnd PosInf ^^ n) st = st\<lparr>phase := Fin (p + real n)\<rparr>"
proof (induction n)
  case 0
  then show ?case by simp
next
  case (Suc n)
  then show ?case by (simp add: frame_frozen add.commute add.left_commute)
qed

lemma lfo_ok_constructor: "lfo_ok sr (lfo_constructor sr)"
  by (simp add: lfo_ok_def lfo_constructor_def recalculateInterval_def)

lemma process_frozen:
  assumes ok: "lfo_ok sr st" and f: "f \<le> 0" and ne: "out \<noteq> []"
  shows "\<exists>st'. process rnd sr out f st =
            Inr (st', map (\<lambda>ch. map (\<lambda>j. if j < length (hd out) then currentValue st else ch ! j)
                                     [0..<length ch]) out)
          \<and> lfo_ok sr st' \<and> currentValue st' = currentValue st \<and> drawn st' = drawn st"
proof -
  obtain p where p: "phase st = Fin p"
    using ok by (auto simp: lfo_ok_def isFinite_iff)
  define st1 where "st1 = (if f \<noteq> lastFrequency st then recalculateInterval sr f st else st)"
  have T: "updateInterval st1 = PosInf"
    using ok f by (auto simp: st1_def recalculateInterval_def lfo_ok_def)
  have p1: "phase st1 = Fin p"
    using p by (simp add: st1_def recalculateInterval_def)
  have lf: "lastFrequency st1 = f"
    by (simp add: st1_def recalculateInterval_def)
  have cv: "currentValue st1 = currentValue st" "drawn st1 = drawn st"
    by (simp_all add: st1_def recalculateInterval_def)
  obtain ch0 rest where out: "out = ch0 # rest"
    using ne by (cases out) auto
  have pr: "process rnd sr out f st = Inr (sample_loop rnd PosInf (length ch0) 0 st1 out)"
    using T by (simp add: process_def st1_def[symmetric] Let_def out)
  have fs: "fst (sample_loop rnd PosInf (length ch0) 0 st1 out) = st1\<lparr>phase := Fin (p + real (length ch0))\<rparr>"
    by (simp add: sample_loop_state frames_frozen[OF p1])
  have sn: "snd (sample_loop rnd PosInf (length ch0) 0 st1 out) =
      map (\<lambda>ch. map (\<lambda>j. if j < length (hd out) then currentValue st else ch ! j) [0..<length ch]) out"
    by (simp add: sample_loop_output frames_frozen[OF p1] cv out del: funpow.simps)
  have "process rnd sr out f st = Inr (st1\<lparr>phase := Fin (p + real (length ch0))\<rparr>,
      map (\<lambda>ch. map (\<lambda>j. if j < length (hd out) then currentValue st else ch ! j) [0..<length ch]) out)"
    unfolding pr using fs sn by (metis prod.collapse)
  moreover have "lfo_ok sr (st1\<lparr>phase := Fin (p + real (length ch0))\<rparr>)"
    using T lf f by (simp add: lfo_ok_def)
  ultimately show ?thesis using cv by auto
qed

lemma render_frozen:
  assumes "lfo_ok sr st" and "\<forall>q \<in> set quanta. fst q \<le> 0 \<and> snd q \<noteq> []"
  shows "\<exists>st'. render rnd sr quanta st =
            Inr (st', map (\<lambda>q. map (\<lambda>ch. map (\<lambda>j. if j < length (hd (snd q)) then currentValue st else ch ! j)
                                     [0..<length ch]) (snd q)) quanta)
          \<and> lfo_ok sr st' \<and> currentValue st' = currentValue st \<and> drawn st' = drawn st"
  using assms
proof (induction quanta arbitrary: st)
  case Nil
  then show ?case by simp
next
  case (Cons q quanta)
  obtain f out where q: "q = (f, out)" by (cases q)
  from Cons.prems q have f: "f \<le> 0" and ne: "out \<noteq> []" by auto
  from process_frozen[OF Cons.prems(1) f ne, of rnd]
  obtain st1 where 1: "process rnd sr out f st =
            Inr (st1, map (\<lambda>ch. map (\<lambda>j. if j < length (hd out) then currentValue st else ch ! j)
                                     [0..<length ch]) out)"
     and ok1: "lfo_ok sr st1" and cv1: "currentValue st1 = currentValue st" "drawn st1 = drawn st"
    by blast
  from Cons.IH[OF ok1] Cons.prems(2)
  obtain st2 where 2: "render rnd sr quanta st1 =
            Inr (st2, map (\<lambda>q. map (\<lambda>ch. map (\<lambda>j. if j < length (hd (snd q)) then currentValue st1 else ch ! j)
                                     [0..<length ch]) (snd q)) quanta)"
     and ok2: "lfo_ok sr st2" and cv2: "currentValue st2 = currentValue st1" "drawn st2 = drawn st1"
    by auto
  show ?case
    using 1 2 ok2 cv1 cv2 by (simp add: q)
qed



















text \<open>
  C9. From any state the processor can be in, while every quantum is rendered with a
  frequency value \<open>\<le> 0\<close> (and at least one channel), \<open>process\<close> never throws, no
  value is drawn, the held value stays what it was, and every sample written to every
  channel is that value.
\<close>

theorem frozen_at_nonpositive_frequency:
  assumes "lfo_ok sr st" and "\<forall>q \<in> set quanta. fst q \<le> 0 \<and> snd q \<noteq> []"
  shows "\<exists>st' written. render rnd sr quanta st = Inr (st', written)
          \<and> currentValue st' = currentValue st \<and> drawn st' = drawn st
          \<and> length written = length quanta
          \<and> (\<forall>k < length quanta. length (written ! k) = length (snd (quanta ! k))
               \<and> (\<forall>ch \<in> set (written ! k). \<forall>j < length ch.
                     j < length (hd (snd (quanta ! k))) \<longrightarrow> ch ! j = currentValue st))"
proof -
  from render_frozen[OF assms, of rnd]
  obtain st' where r: "render rnd sr quanta st =
            Inr (st', map (\<lambda>q. map (\<lambda>ch. map (\<lambda>j. if j < length (hd (snd q)) then currentValue st else ch ! j)
                                     [0..<length ch]) (snd q)) quanta)"
     and cv: "currentValue st' = currentValue st" "drawn st' = drawn st"
    by blast
  show ?thesis
    unfolding r using cv by auto
qed

text \<open>Two quanta, at the frequencies 0 and -1, rendered by a fresh processor.\<close>

theorem frozen_at_nonpositive_frequency_witness:
  "lfo_ok 44100 (lfo_constructor 44100)
   \<and> (\<exists>st' written.
         render flat_random 44100 [(0, [[1, 2], [3, 4]]), (- 1, [[5, 6]])] (lfo_constructor 44100)
           = Inr (st', written)
         \<and> currentValue st' = 0 \<and> drawn st' = 0 \<and> written = [[[0, 0], [0, 0]], [[0, 0]]])"
proof -
  have ok: "lfo_ok 44100 (lfo_constructor 44100)"
    by (rule lfo_ok_constructor)
  have q: "\<forall>q \<in> set [(0::real, [[1, 2], [3, 4::real]]), (- 1, [[5, 6]])]. fst q \<le> 0 \<and> snd q \<noteq> []"
    by simp
  from frozen_at_nonpositive_frequency[OF ok q, of flat_random]
  obtain st' written where
    r: "render flat_random 44100 [(0, [[1, 2], [3, 4]]), (- 1, [[5, 6]])] (lfo_constructor 44100)
           = Inr (st', written)"
    and cv: "currentValue st' = currentValue (lfo_constructor 44100)"
            "drawn st' = drawn (lfo_constructor 44100)"
    by blast
  have w: "snd (projr (render flat_random 44100 [(0, [[1, 2], [3, 4]]), (- 1, [[5, 6]])] (lfo_constructor 44100)))
      = [[[0, 0], [0, 0]], [[0, 0]]]"
    by (simp add: process_def lfo_constructor_def recalculateInterval_def frame_def Let_def
        num_ge_def num_sub_def)
  have "written = [[[0, 0], [0, 0]], [[0, 0]]]"
    using w unfolding r by simp
  then show ?thesis
    using ok r cv by (simp add: lfo_constructor_def recalculateInterval_def)
qed

section \<open>Properties of the synthesizer\<close>

subsection \<open>The example engine\<close>


lemma ready_nodes: "nodes ready_synth n"
  by (simp add: ready_synth_def initAudio_def initial_synth_def running_context_def Let_def
      assign_value_def log_def)

lemma ready_ctx: "audioContext ready_synth = Some running_context"
  by (simp add: ready_synth_def initAudio_def initial_synth_def running_context_def Let_def
      assign_value_def log_def)

lemma ready_params: "params ready_synth = default_params"
  by (simp add: ready_synth_def initAudio_def initial_synth_def running_context_def Let_def
      assign_value_def log_def)

lemma ready_flags: "isAudioInitialized ready_synth" "isAudioResumed ready_synth"
  "currentNote ready_synth = None" "pressedKeys ready_synth = []"
  by (simp_all add: ready_synth_def initAudio_def initial_synth_def running_context_def Let_def
      assign_value_def log_def)

lemma ready_calls: "calls (aparam ready_synth p) = []"
  by (simp add: ready_synth_def initAudio_def initial_synth_def running_context_def Let_def
      assign_value_def log_def)




subsection \<open>Oscillator frequency\<close>











subsection \<open>Envelopes\<close>

lemma schedule_other [simp]:
  "audioContext (schedule p c s) = audioContext s"
  "params (schedule p c s) = params s"
  "nodes (schedule p c s) = nodes s"
  "currentNote (schedule p c s) = currentNote s"
  "currentFrequency (schedule p c s) = currentFrequency s"
  "pressedKeys (schedule p c s) = pressedKeys s"
  "isAudioInitialized (schedule p c s) = isAudioInitialized s"
  "isAudioResumed (schedule p c s) = isAudioResumed s"
  "console (schedule p c s) = console s"
  "ntype (schedule p c s) = ntype s"
  "powerLed (schedule p c s) = powerLed s"
  by (simp_all add: schedule_def)

lemma schedule_aparam:
  "aparam (schedule p c s) q =
     (if q = p then (aparam s p)\<lparr>calls := calls (aparam s p) @ [c]\<rparr> else aparam s q)"
  by (simp add: schedule_def)


lemma schedule_with_calls: "schedule p c s = with_calls p [c] s"
  by (simp add: schedule_def with_calls_def)

lemma with_calls_append: "with_calls p cs (with_calls p bs s) = with_calls p (bs @ cs) s"
  by (simp add: with_calls_def)

lemma with_calls_other [simp]:
  "audioContext (with_calls p cs s) = audioContext s"
  "params (with_calls p cs s) = params s"
  "nodes (with_calls p cs s) = nodes s"
  "currentNote (with_calls p cs s) = currentNote s"
  "currentFrequency (with_calls p cs s) = currentFrequency s"
  "pressedKeys (with_calls p cs s) = pressedKeys s"
  "isAudioInitialized (with_calls p cs s) = isAudioInitialized s"
  "isAudioResumed (with_calls p cs s) = isAudioResumed s"
  "console (with_calls p cs s) = console s"
  "ntype (with_calls p cs s) = ntype s"
  "powerLed (with_calls p cs s) = powerLed s"
  by (simp_all add: with_calls_def)

lemma with_calls_aparam:
  "aparam (with_calls p cs s) q =
     (if q = p then (aparam s p)\<lparr>calls := calls (aparam s p) @ cs\<rparr> else aparam s q)"
  by (simp add: with_calls_def)

lemma with_calls_pvalue: "pvalue (aparam (with_calls p cs s) q) = pvalue (aparam s q)"
  by (simp add: with_calls_def)

lemma releaseEnvelope_gate:
  assumes "audioContext s = Some ctx"
  shows "releaseEnvelope env (Some p) now False baseNote s =
           with_calls p [CancelScheduledValues now,
                         SetValueAtTime (Fin (pvalue (aparam s p))) now,
                         LinearRampToValueAtTime (Fin 0.0001) (now + max 0.001 (release env))] s"
  using assms
  by (simp add: releaseEnvelope_def Let_def schedule_with_calls with_calls_append with_calls_aparam)

lemma releaseEnvelope_vcf:
  assumes "audioContext s = Some ctx"
  shows "releaseEnvelope env (Some p) now True baseNote s =
           with_calls p [CancelScheduledValues now,
                         SetValueAtTime (Fin (pvalue (aparam s p))) now,
                         LinearRampToValueAtTime
                           (Fin (clamp_cutoff (sampleRate ctx) (cutoff_base (params s) baseNote)))
                           (now + max 0.001 (release env))] s"
  unfolding releaseEnvelope_def clamp_cutoff_def cutoff_base_def keyFollowOffset_def
  by (simp only: assms option.case prod.case Let_def if_True schedule_with_calls with_calls_append
      with_calls_other with_calls_pvalue append.simps)

lemma triggerEnvelope_gate:
  assumes "audioContext s = Some ctx"
  shows "triggerEnvelope env (Some p) sustainValue now False baseNote s =
           with_calls p [CancelScheduledValues now,
                         SetValueAtTime (Fin 0.0001) now,
                         LinearRampToValueAtTime (Fin 1) (now + max 0.001 (attack env)),
                         LinearRampToValueAtTime (Fin (max 0.0001 sustainValue))
                           (now + max 0.001 (attack env) + max 0.001 (decay env))] s"
  using assms
  by (simp add: triggerEnvelope_def Let_def schedule_with_calls with_calls_append)

lemma triggerEnvelope_vcf:
  assumes "audioContext s = Some ctx"
  shows "triggerEnvelope env (Some p) sustainValue now True baseNote s =
           with_calls p
             [CancelScheduledValues now,
              SetValueAtTime (Fin (clamp_cutoff (sampleRate ctx) (cutoff_base (params s) baseNote))) now,
              LinearRampToValueAtTime
                (Fin (clamp_cutoff (sampleRate ctx) (cutoff_base (params s) baseNote + vcfEnvGain (params s))))
                (now + max 0.001 (attack env)),
              LinearRampToValueAtTime
                (Fin (clamp_cutoff (sampleRate ctx)
                       (cutoff_base (params s) baseNote + sustainValue * vcfEnvGain (params s))))
                (now + max 0.001 (attack env) + max 0.001 (decay env))] s"
  unfolding triggerEnvelope_def clamp_cutoff_def cutoff_base_def keyFollowOffset_def
  by (simp only: assms option.case prod.case Let_def if_True schedule_with_calls with_calls_append
      with_calls_other append.simps)

lemma clamp_cutoff_range: "40 \<le> sr \<Longrightarrow> 20 \<le> clamp_cutoff sr x \<and> clamp_cutoff sr x \<le> sr / 2"
  by (simp add: clamp_cutoff_def)



lemma releaseEnvelopes_gate:
  assumes c: "audioContext s = Some ctx" and n: "nodes s Filter" "nodes s VcaGainNode"
  shows "aparam (releaseEnvelopes note now s) (VcaGainNode, Gain) =
           (aparam s (VcaGainNode, Gain))
             \<lparr>calls := calls (aparam s (VcaGainNode, Gain)) @
                [CancelScheduledValues now,
                 SetValueAtTime (Fin (pvalue (aparam s (VcaGainNode, Gain)))) now,
                 LinearRampToValueAtTime (Fin 0.0001) (now + max 0.001 (release (vcaEnv (params s))))]\<rparr>"
proof -
  let ?s1 = "releaseEnvelope (vcfEnv (params s)) (Some (Filter, Frequency)) now True note s"
  have s1: "?s1 = with_calls (Filter, Frequency)
      [CancelScheduledValues now, SetValueAtTime (Fin (pvalue (aparam s (Filter, Frequency)))) now,
       LinearRampToValueAtTime (Fin (clamp_cutoff (sampleRate ctx) (cutoff_base (params s) note)))
         (now + max 0.001 (release (vcfEnv (params s))))] s"
    by (rule releaseEnvelope_vcf[OF c])
  have c1: "audioContext ?s1 = Some ctx"
    unfolding s1 using c by simp
  show ?thesis
    using n
    by (simp add: releaseEnvelopes_def releaseEnvelope_gate[OF c1] with_calls_aparam)
       (simp add: s1 with_calls_aparam)
qed

text \<open>
  C5. With an audio context, a release (\<open>releaseEnvelope\<close> with \<open>isVcf = false\<close>) on a
  target makes exactly three calls on it, in this order: it cancels the scheduled values
  from \<open>now\<close> on, sets the value the parameter reads at the moment at \<open>now\<close>, and ramps
  linearly to 0.0001, which is not zero, ending \<open>max(0.001, release)\<close> seconds later.
  \<open>releaseEnvelopes\<close> does this to the gain of the gate with the amplitude envelope's
  release time.
\<close>

theorem release_of_gate_gain:
  assumes "audioContext s = Some ctx"
  shows "releaseEnvelope env (Some p) now False baseNote s =
           with_calls p [CancelScheduledValues now,
                         SetValueAtTime (Fin (pvalue (aparam s p))) now,
                         LinearRampToValueAtTime (Fin 0.0001) (now + max 0.001 (release env))] s
       \<and> (0::real) < 0.0001 \<and> (0.001::real) \<le> max 0.001 (release env)
       \<and> (nodes s Filter \<and> nodes s VcaGainNode \<longrightarrow>
            aparam (releaseEnvelopes note now s) (VcaGainNode, Gain) =
              (aparam s (VcaGainNode, Gain))
                \<lparr>calls := calls (aparam s (VcaGainNode, Gain)) @
                   [CancelScheduledValues now,
                    SetValueAtTime (Fin (pvalue (aparam s (VcaGainNode, Gain)))) now,
                    LinearRampToValueAtTime (Fin 0.0001)
                      (now + max 0.001 (release (vcaEnv (params s))))]\<rparr>)"
  using releaseEnvelope_gate[OF assms] releaseEnvelopes_gate[OF assms] by simp

lemma sounding_gate_facts:
  "audioContext sounding_gate_synth = Some running_context"
  "nodes sounding_gate_synth n"
  "params sounding_gate_synth = default_params"
  "aparam sounding_gate_synth (VcaGainNode, Gain) = \<lparr>pvalue = 0.7, calls = []\<rparr>"
  by (simp_all add: sounding_gate_synth_def assign_value_def ready_ctx ready_nodes ready_params
      ready_calls)

text \<open>
  The gate reads 0.7: released at time 1 with the default release of 0.2 s it is held at
  0.7 and ramped to 0.0001 at 1.2; with a release time of 0 the ramp ends at 1.001.
\<close>

theorem release_of_gate_gain_witness:
  "audioContext sounding_gate_synth = Some running_context
   \<and> nodes sounding_gate_synth Filter \<and> nodes sounding_gate_synth VcaGainNode
   \<and> aparam (releaseEnvelope (vcaEnv default_params) (Some (VcaGainNode, Gain)) 1 False 69
         sounding_gate_synth) (VcaGainNode, Gain)
       = \<lparr>pvalue = 0.7,
          calls = [CancelScheduledValues 1, SetValueAtTime (Fin 0.7) 1,
                   LinearRampToValueAtTime (Fin 0.0001) 1.2]\<rparr>
   \<and> aparam (releaseEnvelopes 60 1 sounding_gate_synth) (VcaGainNode, Gain)
       = \<lparr>pvalue = 0.7,
          calls = [CancelScheduledValues 1, SetValueAtTime (Fin 0.7) 1,
                   LinearRampToValueAtTime (Fin 0.0001) 1.2]\<rparr>
   \<and> calls (aparam (releaseEnvelope \<lparr>attack = 0, decay = 0, sustain = 0, release = 0\<rparr>
         (Some (VcaGainNode, Gain)) 1 False 69 sounding_gate_synth) (VcaGainNode, Gain))
       = [CancelScheduledValues 1, SetValueAtTime (Fin 0.7) 1,
          LinearRampToValueAtTime (Fin 0.0001) 1.001]"
  using release_of_gate_gain[OF sounding_gate_facts(1), of "vcaEnv default_params" "(VcaGainNode, Gain)" 1 69 60]
    release_of_gate_gain[OF sounding_gate_facts(1), of "\<lparr>attack = 0, decay = 0, sustain = 0, release = 0\<rparr>" "(VcaGainNode, Gain)" 1 69 60]
  by (simp add: sounding_gate_facts with_calls_aparam default_params_def)

lemma triggerEnvelopes_filter:
  assumes c: "audioContext s = Some ctx" and n: "nodes s Filter" "nodes s VcaGainNode"
  shows "aparam (triggerEnvelopes nt now s) (Filter, Frequency) =
           (aparam s (Filter, Frequency))
             \<lparr>calls := calls (aparam s (Filter, Frequency)) @
               [CancelScheduledValues now,
                SetValueAtTime (Fin (clamp_cutoff (sampleRate ctx) (cutoff_base (params s) nt))) now,
                LinearRampToValueAtTime
                  (Fin (clamp_cutoff (sampleRate ctx) (cutoff_base (params s) nt + vcfEnvGain (params s))))
                  (now + max 0.001 (attack (vcfEnv (params s)))),
                LinearRampToValueAtTime
                  (Fin (clamp_cutoff (sampleRate ctx)
                         (cutoff_base (params s) nt + sustain (vcfEnv (params s)) * vcfEnvGain (params s))))
                  (now + max 0.001 (attack (vcfEnv (params s))) + max 0.001 (decay (vcfEnv (params s))))]\<rparr>"
    and "aparam (triggerEnvelopes nt now s) (VcaGainNode, Gain) =
           (aparam s (VcaGainNode, Gain))
             \<lparr>calls := calls (aparam s (VcaGainNode, Gain)) @
               [CancelScheduledValues now,
                SetValueAtTime (Fin 0.0001) now,
                LinearRampToValueAtTime (Fin 1) (now + max 0.001 (attack (vcaEnv (params s)))),
                LinearRampToValueAtTime (Fin (max 0.0001 (sustain (vcaEnv (params s)))))
                  (now + max 0.001 (attack (vcaEnv (params s))) + max 0.001 (decay (vcaEnv (params s))))]\<rparr>"
    and "\<And>q. q \<noteq> (Filter, Frequency) \<Longrightarrow> q \<noteq> (VcaGainNode, Gain) \<Longrightarrow>
           aparam (triggerEnvelopes nt now s) q = aparam s q"
proof -
  let ?s1 = "triggerEnvelope (vcfEnv (params s)) (Some (Filter, Frequency)) (sustain (vcfEnv (params s))) now True nt s"
  note s1 = triggerEnvelope_vcf[OF c, of "vcfEnv (params s)" "(Filter, Frequency)" "sustain (vcfEnv (params s))" now "nt"]
  have c1: "audioContext ?s1 = Some ctx"
    unfolding s1 using c by simp
  have e: "triggerEnvelopes nt now s =
      triggerEnvelope (vcaEnv (params s)) (Some (VcaGainNode, Gain)) (sustain (vcaEnv (params s))) now False 69 ?s1"
    using n by (simp add: triggerEnvelopes_def)
  show "aparam (triggerEnvelopes nt now s) (Filter, Frequency) =
           (aparam s (Filter, Frequency))
             \<lparr>calls := calls (aparam s (Filter, Frequency)) @
               [CancelScheduledValues now,
                SetValueAtTime (Fin (clamp_cutoff (sampleRate ctx) (cutoff_base (params s) nt))) now,
                LinearRampToValueAtTime
                  (Fin (clamp_cutoff (sampleRate ctx) (cutoff_base (params s) nt + vcfEnvGain (params s))))
                  (now + max 0.001 (attack (vcfEnv (params s)))),
                LinearRampToValueAtTime
                  (Fin (clamp_cutoff (sampleRate ctx)
                         (cutoff_base (params s) nt + sustain (vcfEnv (params s)) * vcfEnvGain (params s))))
                  (now + max 0.001 (attack (vcfEnv (params s))) + max 0.001 (decay (vcfEnv (params s))))]\<rparr>"
    unfolding e triggerEnvelope_gate[OF c1] by (simp add: with_calls_aparam s1)
  show "aparam (triggerEnvelopes nt now s) (VcaGainNode, Gain) =
           (aparam s (VcaGainNode, Gain))
             \<lparr>calls := calls (aparam s (VcaGainNode, Gain)) @
               [CancelScheduledValues now,
                SetValueAtTime (Fin 0.0001) now,
                LinearRampToValueAtTime (Fin 1) (now + max 0.001 (attack (vcaEnv (params s)))),
                LinearRampToValueAtTime (Fin (max 0.0001 (sustain (vcaEnv (params s)))))
                  (now + max 0.001 (attack (vcaEnv (params s))) + max 0.001 (decay (vcaEnv (params s))))]\<rparr>"
    unfolding e triggerEnvelope_gate[OF c1] by (simp add: with_calls_aparam s1)
  show "\<And>q. q \<noteq> (Filter, Frequency) \<Longrightarrow> q \<noteq> (VcaGainNode, Gain) \<Longrightarrow>
           aparam (triggerEnvelopes nt now s) q = aparam s q"
    unfolding e triggerEnvelope_gate[OF c1] by (simp add: with_calls_aparam s1)
qed

text \<open>
  C6, amended. With an audio context, a trigger of the filter envelope for the nt
  \<open>n\<close> cancels the scheduled values and schedules three cutoff values: the base at
  \<open>now\<close>, base + envelope depth after the attack, base + sustain level times envelope
  depth after the decay, each clamped to \<open>[20, nyquist]\<close>. The base is the cutoff knob's
  value plus, with key-follow on, \<open>(n - 69) / 12\<close> times a fifth of the knob's value,
  and not less than 20 Hz: the floor is applied before the depth is added. Where knob
  value plus offset is at least 20, the base is that sum.
\<close>

theorem trigger_of_filter_cutoff:
  assumes "audioContext s = Some ctx"
  shows "triggerEnvelope env (Some p) sustainValue now True n s =
           with_calls p
             [CancelScheduledValues now,
              SetValueAtTime (Fin (clamp_cutoff (sampleRate ctx) (cutoff_base (params s) n))) now,
              LinearRampToValueAtTime
                (Fin (clamp_cutoff (sampleRate ctx) (cutoff_base (params s) n + vcfEnvGain (params s))))
                (now + max 0.001 (attack env)),
              LinearRampToValueAtTime
                (Fin (clamp_cutoff (sampleRate ctx)
                       (cutoff_base (params s) n + sustainValue * vcfEnvGain (params s))))
                (now + max 0.001 (attack env) + max 0.001 (decay env))] s
       \<and> cutoff_base (params s) n =
           max 20 (filter_frequency (params s)
                   + (if keyFollow (params s) > 0.5
                      then (real_of_int n - 69) / 12 * (filter_frequency (params s) * 0.2) else 0))
       \<and> (20 \<le> filter_frequency (params s) + keyFollowOffset (params s) n \<longrightarrow>
            cutoff_base (params s) n = filter_frequency (params s) + keyFollowOffset (params s) n)
       \<and> (40 \<le> sampleRate ctx \<longrightarrow>
            (\<forall>x. 20 \<le> clamp_cutoff (sampleRate ctx) x \<and> clamp_cutoff (sampleRate ctx) x \<le> sampleRate ctx / 2))
       \<and> (nodes s Filter \<and> nodes s VcaGainNode \<longrightarrow>
            aparam (triggerEnvelopes n now s) (Filter, Frequency) =
              (aparam s (Filter, Frequency))
                \<lparr>calls := calls (aparam s (Filter, Frequency)) @
                  [CancelScheduledValues now,
                   SetValueAtTime (Fin (clamp_cutoff (sampleRate ctx) (cutoff_base (params s) n))) now,
                   LinearRampToValueAtTime
                     (Fin (clamp_cutoff (sampleRate ctx) (cutoff_base (params s) n + vcfEnvGain (params s))))
                     (now + max 0.001 (attack (vcfEnv (params s)))),
                   LinearRampToValueAtTime
                     (Fin (clamp_cutoff (sampleRate ctx)
                            (cutoff_base (params s) n + sustain (vcfEnv (params s)) * vcfEnvGain (params s))))
                     (now + max 0.001 (attack (vcfEnv (params s))) + max 0.001 (decay (vcfEnv (params s))))]\<rparr>)"
proof (intro conjI impI)
  show "triggerEnvelope env (Some p) sustainValue now True n s =
           with_calls p
             [CancelScheduledValues now,
              SetValueAtTime (Fin (clamp_cutoff (sampleRate ctx) (cutoff_base (params s) n))) now,
              LinearRampToValueAtTime
                (Fin (clamp_cutoff (sampleRate ctx) (cutoff_base (params s) n + vcfEnvGain (params s))))
                (now + max 0.001 (attack env)),
              LinearRampToValueAtTime
                (Fin (clamp_cutoff (sampleRate ctx)
                       (cutoff_base (params s) n + sustainValue * vcfEnvGain (params s))))
                (now + max 0.001 (attack env) + max 0.001 (decay env))] s"
    by (rule triggerEnvelope_vcf[OF assms])
next
  show "cutoff_base (params s) n =
           max 20 (filter_frequency (params s)
                   + (if keyFollow (params s) > 0.5
                      then (real_of_int n - 69) / 12 * (filter_frequency (params s) * 0.2) else 0))"
    by (simp add: cutoff_base_def keyFollowOffset_def)
next
  assume "20 \<le> filter_frequency (params s) + keyFollowOffset (params s) n"
  then show "cutoff_base (params s) n = filter_frequency (params s) + keyFollowOffset (params s) n"
    by (simp add: cutoff_base_def)
next
  assume "40 \<le> sampleRate ctx"
  then show "\<forall>x. 20 \<le> clamp_cutoff (sampleRate ctx) x \<and> clamp_cutoff (sampleRate ctx) x \<le> sampleRate ctx / 2"
    using clamp_cutoff_range by blast
next
  assume "nodes s Filter \<and> nodes s VcaGainNode"
  then show "aparam (triggerEnvelopes n now s) (Filter, Frequency) =
              (aparam s (Filter, Frequency))
                \<lparr>calls := calls (aparam s (Filter, Frequency)) @
                  [CancelScheduledValues now,
                   SetValueAtTime (Fin (clamp_cutoff (sampleRate ctx) (cutoff_base (params s) n))) now,
                   LinearRampToValueAtTime
                     (Fin (clamp_cutoff (sampleRate ctx) (cutoff_base (params s) n + vcfEnvGain (params s))))
                     (now + max 0.001 (attack (vcfEnv (params s)))),
                   LinearRampToValueAtTime
                     (Fin (clamp_cutoff (sampleRate ctx)
                            (cutoff_base (params s) n + sustain (vcfEnv (params s)) * vcfEnvGain (params s))))
                     (now + max 0.001 (attack (vcfEnv (params s))) + max 0.001 (decay (vcfEnv (params s))))]\<rparr>"
    using triggerEnvelopes_filter(1)[OF assms] by blast
qed

lemma low_cutoff_facts:
  "audioContext low_cutoff_synth = Some running_context"
  "nodes low_cutoff_synth n"
  "params low_cutoff_synth = default_params\<lparr>filter_frequency := 20, keyFollow := 1\<rparr>"
  "calls (aparam low_cutoff_synth p) = []"
  by (simp_all add: low_cutoff_synth_def ready_ctx ready_nodes ready_calls)

text \<open>
  The default engine with key-follow on: note 81 at the 20 kHz cutoff is clamped to the
  nyquist frequency throughout; note 57 at a 1 kHz cutoff starts from 800 Hz.
\<close>

theorem trigger_of_filter_cutoff_witness:
  "audioContext ready_synth = Some running_context
   \<and> nodes ready_synth Filter \<and> nodes ready_synth VcaGainNode
   \<and> (40::real) \<le> sampleRate running_context
   \<and> calls (aparam (triggerEnvelopes 81 1 (ready_synth\<lparr>params := default_params\<lparr>keyFollow := 1\<rparr>\<rparr>))
        (Filter, Frequency))
      = [CancelScheduledValues 1, SetValueAtTime (Fin 22050) 1,
         LinearRampToValueAtTime (Fin 22050) 1.01, LinearRampToValueAtTime (Fin 22050) 1.11]
   \<and> calls (aparam (triggerEnvelopes 57 1
               (ready_synth\<lparr>params := default_params\<lparr>keyFollow := 1, filter_frequency := 1000\<rparr>\<rparr>))
        (Filter, Frequency))
      = [CancelScheduledValues 1, SetValueAtTime (Fin 800) 1,
         LinearRampToValueAtTime (Fin 4800) 1.01, LinearRampToValueAtTime (Fin 4000) 1.11]"
proof -
  let ?s = "ready_synth\<lparr>params := default_params\<lparr>keyFollow := 1\<rparr>\<rparr>"
  let ?t = "ready_synth\<lparr>params := default_params\<lparr>keyFollow := 1, filter_frequency := 1000\<rparr>\<rparr>"
  have cs: "audioContext ?s = Some running_context" and ct: "audioContext ?t = Some running_context"
    by (simp_all add: ready_ctx)
  have ns: "nodes ?s Filter \<and> nodes ?s VcaGainNode" and nt: "nodes ?t Filter \<and> nodes ?t VcaGainNode"
    by (simp_all add: ready_nodes)
  from trigger_of_filter_cutoff[OF cs, of _ _ _ 1 81] ns
  have 1: "calls (aparam (triggerEnvelopes 81 1 ?s) (Filter, Frequency))
      = [CancelScheduledValues 1, SetValueAtTime (Fin 22050) 1,
         LinearRampToValueAtTime (Fin 22050) 1.01, LinearRampToValueAtTime (Fin 22050) 1.11]"
    by (simp add: ready_calls clamp_cutoff_def cutoff_base_def keyFollowOffset_def default_params_def
        running_context_def)
  from trigger_of_filter_cutoff[OF ct, of _ _ _ 1 57] nt
  have 2: "calls (aparam (triggerEnvelopes 57 1 ?t) (Filter, Frequency))
      = [CancelScheduledValues 1, SetValueAtTime (Fin 800) 1,
         LinearRampToValueAtTime (Fin 4800) 1.01, LinearRampToValueAtTime (Fin 4000) 1.11]"
    by (simp add: ready_calls clamp_cutoff_def cutoff_base_def keyFollowOffset_def default_params_def
        running_context_def)
  show ?thesis
    using 1 2 by (simp add: ready_ctx ready_nodes running_context_def)
qed

text \<open>
  C6, as stated, with the knob at 20 Hz, key-follow on and the note 60: knob value plus
  offset is 17 Hz, and the attack peak of the claim, 17 + 4000, is 4017 Hz. The code
  schedules 4020 Hz: it raises the base to 20 Hz first.
\<close>

theorem cutoff_base_floor_counterexample:
  "filter_frequency (params low_cutoff_synth) + keyFollowOffset (params low_cutoff_synth) 60 = 17
   \<and> clamp_cutoff 44100
        (filter_frequency (params low_cutoff_synth) + keyFollowOffset (params low_cutoff_synth) 60
           + vcfEnvGain (params low_cutoff_synth)) = 4017
   \<and> calls (aparam (triggerEnvelope (vcfEnv (params low_cutoff_synth)) (Some (Filter, Frequency))
               (sustain (vcfEnv (params low_cutoff_synth))) 1 True 60 low_cutoff_synth)
        (Filter, Frequency))
      = [CancelScheduledValues 1, SetValueAtTime (Fin 20) 1,
         LinearRampToValueAtTime (Fin 4020) 1.01, LinearRampToValueAtTime (Fin 3220) 1.11]"
  by (simp add: triggerEnvelope_vcf[OF low_cutoff_facts(1)] low_cutoff_facts with_calls_aparam
      clamp_cutoff_def cutoff_base_def keyFollowOffset_def default_params_def running_context_def)

subsection \<open>Note on\<close>





lemma with_calls_nil: "with_calls p [] s = s"
  by (simp add: with_calls_def)

lemma triggerEnvelope_shape:
  "\<exists>p cs. triggerEnvelope env tp sv now v n s = with_calls p cs s"
proof (cases "audioContext s")
  case None
  then have "triggerEnvelope env tp sv now v n s = s"
    by (simp add: triggerEnvelope_def)
  then show ?thesis using with_calls_nil by metis
next
  case (Some ctx)
  show ?thesis
  proof (cases tp)
    case None
    then have "triggerEnvelope env tp sv now v n s = s"
      by (simp add: triggerEnvelope_def Some)
    then show ?thesis using with_calls_nil by metis
  next
    case (Some p)
    show ?thesis
    proof (cases v)
      case True
      then have vt: "v = True" by simp
      show ?thesis
        unfolding Some vt using triggerEnvelope_vcf[OF \<open>audioContext s = Some ctx\<close>] by blast
    next
      case False
      then have vf: "v = False" by simp
      show ?thesis
        unfolding Some vf using triggerEnvelope_gate[OF \<open>audioContext s = Some ctx\<close>] by blast
    qed
  qed
qed

lemma triggerEnvelope_frame [simp]:
  "audioContext (triggerEnvelope env tp sv now v n s) = audioContext s"
  "params (triggerEnvelope env tp sv now v n s) = params s"
  "nodes (triggerEnvelope env tp sv now v n s) = nodes s"
  "currentNote (triggerEnvelope env tp sv now v n s) = currentNote s"
  "currentFrequency (triggerEnvelope env tp sv now v n s) = currentFrequency s"
  "pressedKeys (triggerEnvelope env tp sv now v n s) = pressedKeys s"
  "isAudioInitialized (triggerEnvelope env tp sv now v n s) = isAudioInitialized s"
  "isAudioResumed (triggerEnvelope env tp sv now v n s) = isAudioResumed s"
  "console (triggerEnvelope env tp sv now v n s) = console s"
  using triggerEnvelope_shape[of env tp sv now v n s] by (auto simp: with_calls_other)

lemma releaseEnvelope_frame [simp]:
  "audioContext (releaseEnvelope env tp now v n s) = audioContext s"
  "params (releaseEnvelope env tp now v n s) = params s"
  "nodes (releaseEnvelope env tp now v n s) = nodes s"
  "currentNote (releaseEnvelope env tp now v n s) = currentNote s"
  "currentFrequency (releaseEnvelope env tp now v n s) = currentFrequency s"
  "pressedKeys (releaseEnvelope env tp now v n s) = pressedKeys s"
  "isAudioInitialized (releaseEnvelope env tp now v n s) = isAudioInitialized s"
  "isAudioResumed (releaseEnvelope env tp now v n s) = isAudioResumed s"
  "console (releaseEnvelope env tp now v n s) = console s"
  by (simp_all add: releaseEnvelope_def Let_def split: option.splits)

lemma triggerEnvelopes_frame [simp]:
  "audioContext (triggerEnvelopes n now s) = audioContext s"
  "params (triggerEnvelopes n now s) = params s"
  "nodes (triggerEnvelopes n now s) = nodes s"
  "currentNote (triggerEnvelopes n now s) = currentNote s"
  "currentFrequency (triggerEnvelopes n now s) = currentFrequency s"
  "pressedKeys (triggerEnvelopes n now s) = pressedKeys s"
  "isAudioInitialized (triggerEnvelopes n now s) = isAudioInitialized s"
  "isAudioResumed (triggerEnvelopes n now s) = isAudioResumed s"
  "console (triggerEnvelopes n now s) = console s"
  by (simp_all add: triggerEnvelopes_def)

lemma releaseEnvelopes_frame [simp]:
  "audioContext (releaseEnvelopes n now s) = audioContext s"
  "params (releaseEnvelopes n now s) = params s"
  "nodes (releaseEnvelopes n now s) = nodes s"
  "currentNote (releaseEnvelopes n now s) = currentNote s"
  "currentFrequency (releaseEnvelopes n now s) = currentFrequency s"
  "pressedKeys (releaseEnvelopes n now s) = pressedKeys s"
  "isAudioInitialized (releaseEnvelopes n now s) = isAudioInitialized s"
  "isAudioResumed (releaseEnvelopes n now s) = isAudioResumed s"
  "console (releaseEnvelopes n now s) = console s"
  by (simp_all add: releaseEnvelopes_def)

lemma schedule_all_frame [simp]:
  "audioContext (schedule_all cs s) = audioContext s"
  "params (schedule_all cs s) = params s"
  "nodes (schedule_all cs s) = nodes s"
  "currentNote (schedule_all cs s) = currentNote s"
  "currentFrequency (schedule_all cs s) = currentFrequency s"
  "pressedKeys (schedule_all cs s) = pressedKeys s"
  "isAudioInitialized (schedule_all cs s) = isAudioInitialized s"
  "isAudioResumed (schedule_all cs s) = isAudioResumed s"
  "console (schedule_all cs s) = console s"
  unfolding schedule_all_def
  by (induction cs arbitrary: s; simp add: split_def)+

lemma log_frame [simp]:
  "audioContext (log lv m s) = audioContext s"
  "params (log lv m s) = params s"
  "nodes (log lv m s) = nodes s"
  "currentNote (log lv m s) = currentNote s"
  "currentFrequency (log lv m s) = currentFrequency s"
  "pressedKeys (log lv m s) = pressedKeys s"
  "isAudioInitialized (log lv m s) = isAudioInitialized s"
  "isAudioResumed (log lv m s) = isAudioResumed s"
  "aparam (log lv m s) = aparam s"
  "console (log lv m s) = console s @ [(lv, m)]"
  by (simp_all add: log_def)

lemma noteOn_frame [simp]:
  "audioContext (noteOn note freq s) = audioContext s"
  "nodes (noteOn note freq s) = nodes s"
  "pressedKeys (noteOn note freq s) = pressedKeys s"
  "isAudioInitialized (noteOn note freq s) = isAudioInitialized s"
  "isAudioResumed (noteOn note freq s) = isAudioResumed s"
  by (simp_all add: noteOn_def Let_def split_def split: option.splits)

lemma noteOff_frame [simp]:
  "audioContext (noteOff note s) = audioContext s"
  "nodes (noteOff note s) = nodes s"
  "pressedKeys (noteOff note s) = pressedKeys s"
  "isAudioInitialized (noteOff note s) = isAudioInitialized s"
  "isAudioResumed (noteOff note s) = isAudioResumed s"
  by (simp_all add: noteOff_def Let_def split_def split: option.splits)

lemma schedule_all_vcos:
  "aparam (schedule_all [((Vco1, Frequency), a), ((Vco2, Frequency), b),
                         ((Vco1, Frequency), c), ((Vco2, Frequency), d)] s) q =
     (if q = (Vco1, Frequency) then (aparam s q)\<lparr>calls := calls (aparam s q) @ [a, c]\<rparr>
      else if q = (Vco2, Frequency) then (aparam s q)\<lparr>calls := calls (aparam s q) @ [b, d]\<rparr>
      else aparam s q)"
  by (simp add: schedule_all_def schedule_aparam)

lemma trigger_calls_vco [simp]:
  "filter_trigger_calls ctx (p\<lparr>vco1 := a\<rparr>) n = filter_trigger_calls ctx p n"
  "filter_trigger_calls ctx (p\<lparr>vco2 := b\<rparr>) n = filter_trigger_calls ctx p n"
  "gate_trigger_calls ctx (p\<lparr>vco1 := a\<rparr>) = gate_trigger_calls ctx p"
  "gate_trigger_calls ctx (p\<lparr>vco2 := b\<rparr>) = gate_trigger_calls ctx p"
  by (simp_all add: filter_trigger_calls_def gate_trigger_calls_def cutoff_base_def keyFollowOffset_def)

lemma triggerEnvelopes_calls:
  assumes c: "audioContext s = Some ctx" and n: "nodes s Filter" "nodes s VcaGainNode"
  shows "aparam (triggerEnvelopes note (currentTime ctx) s) q =
     (if q = (Filter, Frequency)
      then (aparam s q)\<lparr>calls := calls (aparam s q) @ filter_trigger_calls ctx (params s) note\<rparr>
      else if q = (VcaGainNode, Gain)
      then (aparam s q)\<lparr>calls := calls (aparam s q) @ gate_trigger_calls ctx (params s)\<rparr>
      else aparam s q)"
  using triggerEnvelopes_filter[OF c n, where nt = "note" and now = "currentTime ctx"]
  unfolding filter_trigger_calls_def gate_trigger_calls_def by auto



lemma noteOn_sounding:
  assumes c: "audioContext s = Some ctx" and r: "cstate ctx = Running"
    and v: "nodes s Vco1" "nodes s Vco2" and cn: "currentNote s = Some prevNote"
  shows "noteOn note freq s =
     (if legato (params s) < 0.5
      then triggerEnvelopes note (currentTime ctx)
             (schedule_all (pitch_calls ctx (params s) freq) (retuned ctx note freq s))
      else schedule_all (pitch_calls ctx (params s) freq) (retuned ctx note freq s))"
  by (simp add: noteOn_def c r v cn Let_def split_def retuned_def pitch_calls_def pitch_call_def)

lemma noteOn_silent:
  assumes c: "audioContext s = Some ctx" and r: "cstate ctx = Running"
    and v: "nodes s Vco1" "nodes s Vco2" and cn: "currentNote s = None"
  shows "noteOn note freq s =
     triggerEnvelopes note (currentTime ctx)
       (schedule_all
          [((Vco1, Frequency), CancelScheduledValues (currentTime ctx)),
           ((Vco2, Frequency), CancelScheduledValues (currentTime ctx)),
           ((Vco1, Frequency),
              SetValueAtTime (fst (calculateVcoFrequency (sampleRate ctx) (Fin freq) (vco1 (params s))))
                (currentTime ctx)),
           ((Vco2, Frequency),
              SetValueAtTime (fst (calculateVcoFrequency (sampleRate ctx) (Fin freq) (vco2 (params s))))
                (currentTime ctx))]
          (retuned ctx note freq s))"
  by (simp add: noteOn_def c r v cn Let_def split_def retuned_def)

lemma retuned_fields [simp]:
  "audioContext (retuned ctx note freq s) = audioContext s"
  "nodes (retuned ctx note freq s) = nodes s"
  "aparam (retuned ctx note freq s) = aparam s"
  "currentNote (retuned ctx note freq s) = Some note"
  "currentFrequency (retuned ctx note freq s) = freq"
  "pressedKeys (retuned ctx note freq s) = pressedKeys s"
  "filter_trigger_calls ctx' (params (retuned ctx note freq s)) n = filter_trigger_calls ctx' (params s) n"
  "gate_trigger_calls ctx' (params (retuned ctx note freq s)) = gate_trigger_calls ctx' (params s)"
  by (simp_all add: retuned_def)

text \<open>
  C1. The engine runs (running context, both oscillators, filter and gate present) and
  a note is sounding. Then \<open>noteOn(note, freq)\<close> makes \<open>note\<close> the current note and
  \<open>freq\<close> the current frequency; on each oscillator's frequency it cancels the scheduled
  values and then glides exponentially to the oscillator's target when the portamento
  time exceeds 0.005 s, and jumps to it otherwise. With legato below 0.5 it triggers both
  envelopes (the trigger calls are appended to the filter cutoff and to the gate gain);
  with legato at 0.5 or above the filter cutoff and the gate gain are exactly as
  before. No other parameter of the graph is touched.
\<close>

theorem noteOn_while_sounding:
  assumes e: "engine_running s ctx" and cn: "currentNote s = Some prevNote"
  shows "currentNote (noteOn note freq s) = Some note
     \<and> currentFrequency (noteOn note freq s) = freq
     \<and> aparam (noteOn note freq s) (Vco1, Frequency) =
          (aparam s (Vco1, Frequency))
            \<lparr>calls := calls (aparam s (Vco1, Frequency)) @
               [CancelScheduledValues (currentTime ctx),
                pitch_call (params s)
                  (fst (calculateVcoFrequency (sampleRate ctx) (Fin freq) (vco1 (params s))))
                  (currentTime ctx)]\<rparr>
     \<and> aparam (noteOn note freq s) (Vco2, Frequency) =
          (aparam s (Vco2, Frequency))
            \<lparr>calls := calls (aparam s (Vco2, Frequency)) @
               [CancelScheduledValues (currentTime ctx),
                pitch_call (params s)
                  (fst (calculateVcoFrequency (sampleRate ctx) (Fin freq) (vco2 (params s))))
                  (currentTime ctx)]\<rparr>
     \<and> (legato (params s) < 0.5 \<longrightarrow>
          aparam (noteOn note freq s) (Filter, Frequency) =
            (aparam s (Filter, Frequency))
              \<lparr>calls := calls (aparam s (Filter, Frequency)) @ filter_trigger_calls ctx (params s) note\<rparr>
          \<and> aparam (noteOn note freq s) (VcaGainNode, Gain) =
            (aparam s (VcaGainNode, Gain))
              \<lparr>calls := calls (aparam s (VcaGainNode, Gain)) @ gate_trigger_calls ctx (params s)\<rparr>)
     \<and> (\<not> legato (params s) < 0.5 \<longrightarrow>
          aparam (noteOn note freq s) (Filter, Frequency) = aparam s (Filter, Frequency)
          \<and> aparam (noteOn note freq s) (VcaGainNode, Gain) = aparam s (VcaGainNode, Gain))
     \<and> (\<forall>q. q \<noteq> (Vco1, Frequency) \<and> q \<noteq> (Vco2, Frequency) \<and> q \<noteq> (Filter, Frequency)
              \<and> q \<noteq> (VcaGainNode, Gain) \<longrightarrow> aparam (noteOn note freq s) q = aparam s q)
     \<and> (portamentoTime (params s) > 0.005 \<longrightarrow>
          (\<forall>f now. pitch_call (params s) f now = SetTargetAtTime f now (portamentoTime (params s) / 4)))
     \<and> (\<not> portamentoTime (params s) > 0.005 \<longrightarrow>
          (\<forall>f now. pitch_call (params s) f now = SetValueAtTime f now))"
proof -
  from e have c: "audioContext s = Some ctx" and r: "cstate ctx = Running"
    and v: "nodes s Vco1" "nodes s Vco2" and n: "nodes s Filter" "nodes s VcaGainNode"
    by (simp_all add: engine_running_def)
  let ?s4 = "schedule_all (pitch_calls ctx (params s) freq) (retuned ctx note freq s)"
  have c4: "audioContext ?s4 = Some ctx" and n4: "nodes ?s4 Filter" "nodes ?s4 VcaGainNode"
    using c n by simp_all
  note on = noteOn_sounding[OF c r v cn, of "note" freq]
  note tr = triggerEnvelopes_calls[OF c4 n4, of "note"]
  have p4: "aparam ?s4 q =
     (if q = (Vco1, Frequency)
      then (aparam s q)\<lparr>calls := calls (aparam s q) @
             [CancelScheduledValues (currentTime ctx),
              pitch_call (params s)
                (fst (calculateVcoFrequency (sampleRate ctx) (Fin freq) (vco1 (params s)))) (currentTime ctx)]\<rparr>
      else if q = (Vco2, Frequency)
      then (aparam s q)\<lparr>calls := calls (aparam s q) @
             [CancelScheduledValues (currentTime ctx),
              pitch_call (params s)
                (fst (calculateVcoFrequency (sampleRate ctx) (Fin freq) (vco2 (params s)))) (currentTime ctx)]\<rparr>
      else aparam s q)" for q
    unfolding pitch_calls_def schedule_all_vcos by simp
  show ?thesis
    unfolding on
    by (simp add: tr p4 pitch_call_def)
qed


lemma sounding_facts:
  "audioContext sounding_synth = Some running_context"
  "nodes sounding_synth n"
  "params sounding_synth = default_params"
  "calls (aparam sounding_synth p) = []"
  "currentNote sounding_synth = Some 60"
  "isAudioInitialized sounding_synth" "isAudioResumed sounding_synth"
  "pressedKeys sounding_synth = [(''KeyA'', True)]"
  by (simp_all add: sounding_synth_def ready_ctx ready_nodes ready_params ready_calls ready_flags)

lemma running_context_fields:
  "cstate running_context = Running" "sampleRate running_context = 44100"
  "currentTime running_context = 1"
  by (simp_all add: running_context_def)

lemma vco_default_A4:
  "calculateVcoFrequency 44100 (Fin 440) \<lparr>octave = JNum (Fin 2), wave = ''sawtooth''\<rparr>
     = (Fin 220, \<lparr>octave = JNum (Fin 2), wave = ''sawtooth''\<rparr>, [])"
  by (simp add: calculateVcoFrequency_def invalid_octave_def num_ge_def octaveMultipliers_def
      multiplier_at_def math_max_def math_min_def Let_def)

text \<open>
  Note 60 sounds, A4 (440 Hz) is played: with the defaults (legato on, no portamento) the
  oscillators jump to 220 Hz and no envelope call is made; with legato off and a
  portamento of 0.1 s they glide with the time constant 0.025 and both envelopes are
  triggered.
\<close>

theorem noteOn_while_sounding_witness:
  "engine_running sounding_synth running_context
   \<and> engine_running (sounding_synth\<lparr>params := default_params\<lparr>legato := 0, portamentoTime := 0.1\<rparr>\<rparr>)
        running_context
   \<and> currentNote sounding_synth = Some 60
   \<and> currentNote (noteOn 69 440 sounding_synth) = Some 69
   \<and> calls (aparam (noteOn 69 440 sounding_synth) (Vco1, Frequency))
        = [CancelScheduledValues 1, SetValueAtTime (Fin 220) 1]
   \<and> calls (aparam (noteOn 69 440 sounding_synth) (Filter, Frequency)) = []
   \<and> calls (aparam (noteOn 69 440 sounding_synth) (VcaGainNode, Gain)) = []
   \<and> calls (aparam (noteOn 69 440
               (sounding_synth\<lparr>params := default_params\<lparr>legato := 0, portamentoTime := 0.1\<rparr>\<rparr>))
               (Vco2, Frequency))
        = [CancelScheduledValues 1, SetTargetAtTime (Fin 220) 1 0.025]
   \<and> calls (aparam (noteOn 69 440
               (sounding_synth\<lparr>params := default_params\<lparr>legato := 0, portamentoTime := 0.1\<rparr>\<rparr>))
               (VcaGainNode, Gain))
        = [CancelScheduledValues 1, SetValueAtTime (Fin 0.0001) 1,
           LinearRampToValueAtTime (Fin 1) 1.01, LinearRampToValueAtTime (Fin 1) 1.11]
   \<and> calls (aparam (noteOn 69 440
               (sounding_synth\<lparr>params := default_params\<lparr>legato := 0, portamentoTime := 0.1\<rparr>\<rparr>))
               (Filter, Frequency))
        = [CancelScheduledValues 1, SetValueAtTime (Fin 20000) 1,
           LinearRampToValueAtTime (Fin 22050) 1.01, LinearRampToValueAtTime (Fin 22050) 1.11]"
proof -
  let ?t = "sounding_synth\<lparr>params := default_params\<lparr>legato := 0, portamentoTime := 0.1\<rparr>\<rparr>"
  have e1: "engine_running sounding_synth running_context"
    by (simp add: engine_running_def sounding_facts running_context_fields)
  have e2: "engine_running ?t running_context"
    by (simp add: engine_running_def sounding_facts running_context_fields)
  have c2: "currentNote ?t = Some 60" by (simp add: sounding_facts)
  note w1 = noteOn_while_sounding[OF e1 sounding_facts(5), of 69 440]
  note w2 = noteOn_while_sounding[OF e2 c2, of 69 440]
  have v: "vco1 default_params = \<lparr>octave = JNum (Fin 2), wave = ''sawtooth''\<rparr>"
    "vco2 default_params = \<lparr>octave = JNum (Fin 2), wave = ''sawtooth''\<rparr>"
    "legato default_params = 1" "portamentoTime default_params = 0"
    by (simp_all add: default_params_def)
  have a: "calls (aparam (noteOn 69 440 sounding_synth) (Vco1, Frequency))
        = [CancelScheduledValues 1, SetValueAtTime (Fin 220) 1]"
    and b: "calls (aparam (noteOn 69 440 sounding_synth) (Filter, Frequency)) = []"
    and c: "calls (aparam (noteOn 69 440 sounding_synth) (VcaGainNode, Gain)) = []"
    and d: "currentNote (noteOn 69 440 sounding_synth) = Some 69"
    using w1 by (simp_all add: sounding_facts running_context_fields v vco_default_A4 pitch_call_def)
  have f: "calls (aparam (noteOn 69 440 ?t) (Vco2, Frequency))
        = [CancelScheduledValues 1, SetTargetAtTime (Fin 220) 1 0.025]"
    using w2 by (simp add: sounding_facts running_context_fields v vco_default_A4 pitch_call_def)
  have g: "calls (aparam (noteOn 69 440 ?t) (VcaGainNode, Gain))
        = [CancelScheduledValues 1, SetValueAtTime (Fin 0.0001) 1,
           LinearRampToValueAtTime (Fin 1) 1.01, LinearRampToValueAtTime (Fin 1) 1.11]"
    using w2 by (simp add: sounding_facts running_context_fields gate_trigger_calls_def default_params_def)
  have h: "calls (aparam (noteOn 69 440 ?t) (Filter, Frequency))
        = [CancelScheduledValues 1, SetValueAtTime (Fin 20000) 1,
           LinearRampToValueAtTime (Fin 22050) 1.01, LinearRampToValueAtTime (Fin 22050) 1.11]"
    using w2 by (simp add: sounding_facts running_context_fields filter_trigger_calls_def
        default_params_def clamp_cutoff_def cutoff_base_def keyFollowOffset_def)
  show ?thesis
    using e1 e2 a b c d f g h sounding_facts(5) by simp
qed

subsection \<open>Note off\<close>

lemma keyToNoteMap_range: "keyToNoteMap c = Some n \<Longrightarrow> 60 \<le> n \<and> n \<le> 72"
  by (auto simp: keyToNoteMap_def split: if_splits)

lemma note_truthy_iff: "note_truthy (keyToNoteMap c) = (keyToNoteMap c \<noteq> None)"
  using keyToNoteMap_range[of c] by (auto simp: note_truthy_def split: option.splits)

lemma lastNote_fold:
  "fold (\<lambda>code (lastNote, lastNoteFreq).
             (case keyToNoteMap code of
                None \<Rightarrow> (lastNote, lastNoteFreq)
              | Some heldNote \<Rightarrow>
                  if heldNote > lastNote then (heldNote, midiToFreq heldNote)
                  else (lastNote, lastNoteFreq))) codes (m, f)
   = (fold max (List.map_filter keyToNoteMap codes) m,
      if fold max (List.map_filter keyToNoteMap codes) m = m then f
      else midiToFreq (fold max (List.map_filter keyToNoteMap codes) m))"
proof (induction codes arbitrary: m f)
  case Nil
  then show ?case by (simp add: List.map_filter_simps)
next
  case (Cons c cs)
  have ge: "m \<le> fold max xs m" for xs :: "int list" and m
    by (induction xs arbitrary: m) (auto intro: order_trans[OF max.cobounded2])
  show ?case
  proof (cases "keyToNoteMap c")
    case None
    then show ?thesis by (simp add: Cons.IH List.map_filter_simps)
  next
    case (Some h)
    show ?thesis
    proof (cases "h > m")
      case True
      have mx: "max h m = h" using True by simp
      have "m < fold max (List.map_filter keyToNoteMap cs) h"
        using True ge[of h "List.map_filter keyToNoteMap cs"] by linarith
      then have ne: "fold max (List.map_filter keyToNoteMap cs) h \<noteq> m" by simp
      show ?thesis
        using True Some ne by (auto simp: Cons.IH List.map_filter_simps mx)
    next
      case False
      then have mx: "max h m = m" by simp
      show ?thesis
        using False Some by (simp add: Cons.IH List.map_filter_simps mx)
    qed
  qed
qed

lemma lastNotePriority_max:
  assumes "List.map_filter keyToNoteMap codes \<noteq> []"
  shows "lastNotePriority codes =
           (Max (set (List.map_filter keyToNoteMap codes)),
            midiToFreq (Max (set (List.map_filter keyToNoteMap codes))))"
proof -
  let ?ns = "List.map_filter keyToNoteMap codes"
  have f: "fold max ?ns (- 1) = Max (set (- 1 # ?ns))"
    by (rule Max.set_eq_fold[symmetric])
  obtain n where n: "n \<in> set ?ns" using assms by (cases ?ns) auto
  then obtain c where "keyToNoteMap c = Some n"
    by (auto simp: List.map_filter_def)
  then have n60: "60 \<le> n" using keyToNoteMap_range by blast
  have mx: "Max (set (- 1 # ?ns)) = Max (set ?ns)"
  proof -
    have "Max (insert (- 1) (set ?ns)) = max (- 1) (Max (set ?ns))"
      using assms by (intro Max_insert) auto
    moreover have "n \<le> Max (set ?ns)" using n by simp
    ultimately show ?thesis using n60 by simp
  qed
  have "60 \<le> Max (set ?ns)"
    using n n60 by (meson List.finite_set Max_ge order_trans)
  then have ne: "Max (set ?ns) \<noteq> - 1" by linarith
  show ?thesis
    unfolding lastNotePriority_def lastNote_fold f mx using ne by simp
qed

lemma map_filter_total_length:
  "\<forall>c \<in> set cs. f c \<noteq> None \<Longrightarrow> length (List.map_filter f cs) = length cs"
  by (induction cs) (auto simp: List.map_filter_simps)

lemma heldNotes_empty_iff: "heldNotes s = [] \<longleftrightarrow> remainingHeldCodes s = []"
proof -
  have "\<forall>c \<in> set (remainingHeldCodes s). keyToNoteMap c \<noteq> None"
    by (auto simp: remainingHeldCodes_def note_truthy_iff)
  then have "length (heldNotes s) = length (remainingHeldCodes s)"
    unfolding heldNotes_def by (rule map_filter_total_length)
  then show ?thesis by (metis length_0_conv)
qed

lemma noteOff_transfer:
  assumes i: "isAudioInitialized s" "isAudioResumed s" and c: "audioContext s = Some ctx"
    and v: "nodes s Vco1" "nodes s Vco2" and cn: "currentNote s = Some nt"
    and h: "heldNotes s \<noteq> []"
  shows "noteOff nt s =
           schedule_all (pitch_calls ctx (params s) (midiToFreq (Max (set (heldNotes s)))))
             (retuned ctx (Max (set (heldNotes s))) (midiToFreq (Max (set (heldNotes s)))) s)"
proof -
  have r: "remainingHeldCodes s \<noteq> []" using h heldNotes_empty_iff by blast
  have l: "lastNotePriority (remainingHeldCodes s) =
      (Max (set (heldNotes s)), midiToFreq (Max (set (heldNotes s))))"
    using lastNotePriority_max[of "remainingHeldCodes s"] h by (simp add: heldNotes_def)
  show ?thesis
    by (simp add: noteOff_def i c v cn r l Let_def split_def retuned_def pitch_calls_def
        pitch_call_def)
qed

lemma noteOff_last:
  assumes i: "isAudioInitialized s" "isAudioResumed s" and c: "audioContext s = Some ctx"
    and v: "nodes s Vco1" "nodes s Vco2" and cn: "currentNote s = Some nt"
    and h: "heldNotes s = []"
  shows "noteOff nt s = (releaseEnvelopes nt (currentTime ctx) s)\<lparr>currentNote := None, currentFrequency := 0\<rparr>"
proof -
  have r: "remainingHeldCodes s = []" using h heldNotes_empty_iff by blast
  show ?thesis
    by (simp add: noteOff_def i c v cn r Let_def)
qed

lemma noteOff_other:
  assumes "currentNote s \<noteq> Some nt"
  shows "noteOff nt s = s"
  using assms by (simp add: noteOff_def Let_def)


text \<open>
  C2. The engine runs and is resumed, the note \<open>nt\<close> sounds, and \<open>noteOff(nt)\<close> finds
  keys held (the key-up listener has marked the released key as up before the call).
  Then the highest note among the held keys becomes the current note, its frequency the
  current frequency; on each oscillator's frequency the scheduled values are cancelled
  and the pitch glides or jumps, by the portamento time, to the oscillator's target for
  that note. The filter cutoff and the gate gain are exactly as before, whatever the
  legato switch says: no trigger and no release; nor is any other parameter touched. The
  key-up listener, for a key that is down and maps to \<open>nt\<close>, does exactly this.
\<close>

theorem noteOff_sounding_note_keys_held:
  assumes e: "engine_running s ctx" and i: "isAudioInitialized s" "isAudioResumed s"
    and cn: "currentNote s = Some nt" and h: "heldNotes s \<noteq> []"
  shows "currentNote (noteOff nt s) = Some (Max (set (heldNotes s)))
     \<and> currentFrequency (noteOff nt s) = midiToFreq (Max (set (heldNotes s)))
     \<and> aparam (noteOff nt s) (Vco1, Frequency) =
          (aparam s (Vco1, Frequency))
            \<lparr>calls := calls (aparam s (Vco1, Frequency)) @
               [CancelScheduledValues (currentTime ctx),
                pitch_call (params s)
                  (fst (calculateVcoFrequency (sampleRate ctx)
                          (Fin (midiToFreq (Max (set (heldNotes s))))) (vco1 (params s))))
                  (currentTime ctx)]\<rparr>
     \<and> aparam (noteOff nt s) (Vco2, Frequency) =
          (aparam s (Vco2, Frequency))
            \<lparr>calls := calls (aparam s (Vco2, Frequency)) @
               [CancelScheduledValues (currentTime ctx),
                pitch_call (params s)
                  (fst (calculateVcoFrequency (sampleRate ctx)
                          (Fin (midiToFreq (Max (set (heldNotes s))))) (vco2 (params s))))
                  (currentTime ctx)]\<rparr>
     \<and> aparam (noteOff nt s) (Filter, Frequency) = aparam s (Filter, Frequency)
     \<and> aparam (noteOff nt s) (VcaGainNode, Gain) = aparam s (VcaGainNode, Gain)
     \<and> (\<forall>q. q \<noteq> (Vco1, Frequency) \<and> q \<noteq> (Vco2, Frequency) \<longrightarrow> aparam (noteOff nt s) q = aparam s q)
     \<and> (\<forall>ev s0. key ev \<noteq> ''Shift'' \<and> keyToNoteMap (code ev) = Some nt \<and> key_pressed s0 (code ev)
            \<and> s = key_released (code ev) s0 \<longrightarrow> keyup ev s0 = noteOff nt s)"
proof -
  from e have c: "audioContext s = Some ctx" and v: "nodes s Vco1" "nodes s Vco2"
    by (simp_all add: engine_running_def)
  note off = noteOff_transfer[OF i c v cn h]
  have p4: "aparam (noteOff nt s) q =
     (if q = (Vco1, Frequency)
      then (aparam s q)\<lparr>calls := calls (aparam s q) @
             [CancelScheduledValues (currentTime ctx),
              pitch_call (params s)
                (fst (calculateVcoFrequency (sampleRate ctx)
                        (Fin (midiToFreq (Max (set (heldNotes s))))) (vco1 (params s)))) (currentTime ctx)]\<rparr>
      else if q = (Vco2, Frequency)
      then (aparam s q)\<lparr>calls := calls (aparam s q) @
             [CancelScheduledValues (currentTime ctx),
              pitch_call (params s)
                (fst (calculateVcoFrequency (sampleRate ctx)
                        (Fin (midiToFreq (Max (set (heldNotes s))))) (vco2 (params s)))) (currentTime ctx)]\<rparr>
      else aparam s q)" for q
    unfolding off pitch_calls_def schedule_all_vcos by simp
  have ku: "keyup ev s0 = noteOff nt s"
    if "key ev \<noteq> ''Shift''" "keyToNoteMap (code ev) = Some nt" "key_pressed s0 (code ev)"
       "s = key_released (code ev) s0" for ev s0
  proof -
    have "nt \<noteq> 0" using keyToNoteMap_range[OF that(2)] by linarith
    then show ?thesis
      using that by (simp add: keyup_def key_released_def)
  qed
  show ?thesis
    using ku by (simp add: p4) (simp add: off)
qed



lemma held_keys_facts:
  "audioContext (key_released c held_keys_synth) = Some running_context"
  "nodes (key_released c held_keys_synth) n"
  "params (key_released c held_keys_synth) = default_params"
  "calls (aparam (key_released c held_keys_synth) p) = []"
  "currentNote (key_released c held_keys_synth) = Some 72"
  "isAudioInitialized (key_released c held_keys_synth)"
  "isAudioResumed (key_released c held_keys_synth)"
  by (simp_all add: key_released_def held_keys_synth_def ready_ctx ready_nodes ready_params
      ready_calls ready_flags)

lemma held_keys_notes: "heldNotes (key_released ''KeyK'' held_keys_synth) = [60, 69]"
  by (simp add: heldNotes_def remainingHeldCodes_def key_released_def held_keys_synth_def
      key_pressed_def note_truthy_def keyToNoteMap_def List.map_filter_simps)

lemma midiToFreq_A4: "midiToFreq 69 = 440"
  by (simp add: midiToFreq_def)

text \<open>
  A, H and K are down and K (72) sounds: releasing K leaves 60 and 69 held, the voice
  moves to 69 at 440 Hz, the oscillators jump to 220 Hz and no envelope call is made.
\<close>

theorem noteOff_sounding_note_keys_held_witness:
  "engine_running (key_released ''KeyK'' held_keys_synth) running_context
   \<and> isAudioInitialized (key_released ''KeyK'' held_keys_synth)
   \<and> isAudioResumed (key_released ''KeyK'' held_keys_synth)
   \<and> currentNote (key_released ''KeyK'' held_keys_synth) = Some 72
   \<and> heldNotes (key_released ''KeyK'' held_keys_synth) = [60, 69]
   \<and> currentNote (keyup key_K held_keys_synth) = Some 69
   \<and> currentFrequency (keyup key_K held_keys_synth) = 440
   \<and> calls (aparam (keyup key_K held_keys_synth) (Vco1, Frequency))
        = [CancelScheduledValues 1, SetValueAtTime (Fin 220) 1]
   \<and> calls (aparam (keyup key_K held_keys_synth) (Vco2, Frequency))
        = [CancelScheduledValues 1, SetValueAtTime (Fin 220) 1]
   \<and> calls (aparam (keyup key_K held_keys_synth) (Filter, Frequency)) = []
   \<and> calls (aparam (keyup key_K held_keys_synth) (VcaGainNode, Gain)) = []"
proof -
  let ?s = "key_released ''KeyK'' held_keys_synth"
  have e: "engine_running ?s running_context"
    by (simp add: engine_running_def held_keys_facts running_context_fields)
  have h: "heldNotes ?s \<noteq> []" by (simp add: held_keys_notes)
  note w = noteOff_sounding_note_keys_held[OF e held_keys_facts(6) held_keys_facts(7)
             held_keys_facts(5) h]
  have kp: "key key_K \<noteq> ''Shift''" "keyToNoteMap (code key_K) = Some 72"
    "key_pressed held_keys_synth (code key_K)" "code key_K = ''KeyK''"
    by (simp_all add: key_K_def keyToNoteMap_def key_pressed_def held_keys_synth_def)
  have ku: "keyup key_K held_keys_synth = noteOff 72 ?s"
    using w kp by simp
  have v: "vco1 default_params = \<lparr>octave = JNum (Fin 2), wave = ''sawtooth''\<rparr>"
    "vco2 default_params = \<lparr>octave = JNum (Fin 2), wave = ''sawtooth''\<rparr>"
    "portamentoTime default_params = 0"
    by (simp_all add: default_params_def)
  show ?thesis
    unfolding ku using w e
    by (simp add: held_keys_facts held_keys_notes midiToFreq_A4 running_context_fields v
        vco_default_A4 pitch_call_def)
qed

subsection \<open>The parameter router leaves the voice alone\<close>

lemma set_target_frame [simp]:
  "audioContext (set_target p v now tc s) = audioContext s"
  "nodes (set_target p v now tc s) = nodes s"
  "currentNote (set_target p v now tc s) = currentNote s"
  "currentFrequency (set_target p v now tc s) = currentFrequency s"
  "pressedKeys (set_target p v now tc s) = pressedKeys s"
  "isAudioInitialized (set_target p v now tc s) = isAudioInitialized s"
  "isAudioResumed (set_target p v now tc s) = isAudioResumed s"
  by (simp_all add: set_target_def split: aval.splits)

lemma set_type_frame [simp]:
  "audioContext (set_type n v s) = audioContext s"
  "nodes (set_type n v s) = nodes s"
  "currentNote (set_type n v s) = currentNote s"
  "currentFrequency (set_type n v s) = currentFrequency s"
  "pressedKeys (set_type n v s) = pressedKeys s"
  "isAudioInitialized (set_type n v s) = isAudioInitialized s"
  "isAudioResumed (set_type n v s) = isAudioResumed s"
  "aparam (set_type n v s) = aparam s"
  by (simp_all add: set_type_def split: aval.splits)

lemma update_audio_node_frame [simp]:
  "audioContext (update_audio_node path v ctx s) = audioContext s"
  "nodes (update_audio_node path v ctx s) = nodes s"
  "currentNote (update_audio_node path v ctx s) = currentNote s"
  "currentFrequency (update_audio_node path v ctx s) = currentFrequency s"
  "pressedKeys (update_audio_node path v ctx s) = pressedKeys s"
  "isAudioInitialized (update_audio_node path v ctx s) = isAudioInitialized s"
  "isAudioResumed (update_audio_node path v ctx s) = isAudioResumed s"
  by (simp_all add: update_audio_node_def Let_def split_def split: aval.splits)

lemma updateParameter_frame [simp]:
  "audioContext (updateParameter path c force s) = audioContext s"
  "nodes (updateParameter path c force s) = nodes s"
  "currentNote (updateParameter path c force s) = currentNote s"
  "currentFrequency (updateParameter path c force s) = currentFrequency s"
  "pressedKeys (updateParameter path c force s) = pressedKeys s"
  "isAudioInitialized (updateParameter path c force s) = isAudioInitialized s"
  "isAudioResumed (updateParameter path c force s) = isAudioResumed s"
  by (simp_all add: updateParameter_def Let_def split: option.splits)

subsection \<open>Note on with the engine not running\<close>










end
